theory Spec2Isabelle
  imports Complex_Main
begin

section \<open>Identifiers and values of the document store\<close>

text \<open>
  The services address documents through \<^verbatim>\<open>bson.ObjectId\<close>. An ObjectId is built from a
  string of 24 hexadecimal digits (anything else raises \<^verbatim>\<open>InvalidId\<close>) and prints as the
  lower-case hexadecimal string. A field of a stored document holds either an ObjectId or a
  plain string; an equality query of the store matches a field only against a value of the
  same kind, so \<open>OidV x\<close> and \<open>StrV s\<close> are never equal.
\<close>

datatype oid = OID string

definition is_hex :: "char \<Rightarrow> bool" where
  "is_hex c = (c \<in> set ''0123456789abcdefABCDEF'')"

definition lower_hex :: "char \<Rightarrow> char" where
  "lower_hex c = (case map_of (zip ''ABCDEF'' ''abcdef'') c of Some l \<Rightarrow> l | None \<Rightarrow> c)"

definition ObjectId :: "string \<Rightarrow> oid option" where
  "ObjectId s = (if length s = 24 \<and> list_all is_hex s then Some (OID (map lower_hex s)) else None)"

fun str_oid :: "oid \<Rightarrow> string" where
  "str_oid (OID h) = h"

datatype idval = OidV oid | StrV string

text \<open>
  Exceptions of the services: \<^verbatim>\<open>HTTPException(status_code, detail)\<close>, the uncaught
  \<^verbatim>\<open>bson.errors.InvalidId\<close>, and the duplicate-key error of an insert that violates a
  unique index.
\<close>

datatype error = HTTPException nat string | InvalidId | DuplicateKeyError

text \<open>Decimal printing of integers, as an f-string does.\<close>

function str_nat :: "nat \<Rightarrow> string" where
  "str_nat n = (if n < 10 then [''0123456789'' ! n]
                else str_nat (n div 10) @ [''0123456789'' ! (n mod 10)])"
  by pat_completeness auto
termination
  by (relation "measure id") auto

definition str_int :: "int \<Rightarrow> string" where
  "str_int i = (if i < 0 then ''-'' @ str_nat (nat (- i)) else str_nat (nat i))"

text \<open>
  Python floats. A finite double denotes a rational number, so float-valued fields are
  stored as \<open>rat\<close>. The rounding operations on doubles are not fixed here: the product of a
  float and an int (\<^verbatim>\<open>price * number_of_people\<close>), the store's \<^verbatim>\<open>$avg\<close> over integer
  ratings and Python's \<^verbatim>\<open>round(x, 1)\<close> are parameters of the model.
\<close>

record float_ops =
  fmul :: "rat \<Rightarrow> int \<Rightarrow> rat"
  favg :: "int list \<Rightarrow> rat"
  fround1 :: "rat \<Rightarrow> rat"

section \<open>Data model\<close>

datatype BookingStatus = PENDING | CONFIRMED | CANCELLED | COMPLETED

fun status_value :: "BookingStatus \<Rightarrow> string" where
  "status_value PENDING = ''pending''"
| "status_value CONFIRMED = ''confirmed''"
| "status_value CANCELLED = ''cancelled''"
| "status_value COMPLETED = ''completed''"

datatype PackageStatus = ACTIVE | INACTIVE

text \<open>
  A document of \<^verbatim>\<open>tour_packages\<close>, keyed by its \<^verbatim>\<open>_id\<close>. Only the fields the booking and
  rating services read or write are kept; \<open>name\<close> stands for the descriptive fields.
  \<open>rating_count\<close> is not a field of the package model: it exists only once
  \<^verbatim>\<open>update_package_rating\<close> has written it.
\<close>

record package_doc =
  name :: string
  price :: rat
  max_participants :: int
  current_participants :: int
  status :: PackageStatus
  average_rating :: rat
  total_ratings :: int
  rating_count :: "int option"

text \<open>\<^verbatim>\<open>TourPackageUpdate\<close>: every field is optional; \<open>None\<close> is a field left unset.\<close>

record TourPackageUpdate =
  upd_name :: "string option"
  upd_price :: "rat option"
  upd_max_participants :: "int option"
  upd_current_participants :: "int option"
  upd_status :: "PackageStatus option"
  upd_average_rating :: "rat option"
  upd_total_ratings :: "int option"

text \<open>\<^verbatim>\<open>BookingCreate\<close>, the request body of a booking; dates are timestamps.\<close>

record BookingCreate =
  tour_package_id :: string
  travel_date :: nat
  number_of_people :: int
  contact_phone :: string
  emergency_contact_name :: string
  emergency_contact_number :: string
  special_requests :: "string option"

text \<open>A document of \<^verbatim>\<open>bookings\<close>.\<close>

record booking_doc =
  bk_id :: oid
  bk_tour_package_id :: idval
  bk_tourist_id :: idval
  bk_booking_date :: nat
  bk_travel_date :: nat
  bk_number_of_people :: int
  bk_total_price :: rat
  bk_status :: BookingStatus
  bk_booking_reference :: string
  bk_contact_phone :: string
  bk_emergency_contact_name :: string
  bk_emergency_contact_number :: string
  bk_special_requests :: "string option"

text \<open>\<^verbatim>\<open>RatingCreate\<close> and a document of \<^verbatim>\<open>ratings\<close>.\<close>

record RatingCreate =
  rc_tour_package_id :: string
  rc_tourist_id :: string
  rc_rating :: int
  rc_review :: "string option"
  rc_booking_id :: "string option"

record rating_doc =
  rt_id :: oid
  rt_tour_package_id :: string
  rt_tourist_id :: string
  rt_rating :: int
  rt_review :: "string option"
  rt_booking_id :: "string option"
  rt_created_at :: nat

text \<open>
  The database: packages by \<^verbatim>\<open>_id\<close>, bookings and ratings in insertion order.
  \<open>booking_reference_unique\<close> records whether the unique index on
  \<^verbatim>\<open>bookings.booking_reference\<close> exists; only the maintenance script
  \<^verbatim>\<open>fix_backend_issues.create_indexes\<close> creates it, the application never does.
\<close>

record db =
  tour_packages :: "oid \<rightharpoonup> package_doc"
  bookings :: "booking_doc list"
  ratings :: "rating_doc list"
  booking_reference_unique :: bool

text \<open>
  What a request takes from its environment: the \<^verbatim>\<open>_id\<close> the driver generates for the
  inserted document, the draws of the random generator, and the clock.
\<close>

record env =
  new_id :: oid
  rnd :: "nat \<Rightarrow> nat"
  now :: nat

section \<open>Store operations\<close>

definition find_booking :: "oid \<Rightarrow> booking_doc list \<Rightarrow> booking_doc option" where
  "find_booking i bs = List.find (\<lambda>b. bk_id b = i) bs"

definition insert_one_booking :: "db \<Rightarrow> booking_doc \<Rightarrow> error + db" where
  "insert_one_booking d doc =
     (if bk_id doc \<in> set (map bk_id (bookings d)) then Inl DuplicateKeyError
      else if booking_reference_unique d
              \<and> bk_booking_reference doc \<in> set (map bk_booking_reference (bookings d))
      then Inl DuplicateKeyError
      else Inr (d\<lparr>bookings := bookings d @ [doc]\<rparr>))"

definition inc_current_participants :: "db \<Rightarrow> oid \<Rightarrow> int \<Rightarrow> db" where
  "inc_current_participants d pid k =
     (case tour_packages d pid of
        None \<Rightarrow> d
      | Some p \<Rightarrow> d\<lparr>tour_packages :=
                     (tour_packages d)(pid \<mapsto> p\<lparr>current_participants := current_participants p + k\<rparr>)\<rparr>)"

fun set_status_one :: "oid \<Rightarrow> BookingStatus \<Rightarrow> booking_doc list \<Rightarrow> booking_doc list" where
  "set_status_one i s [] = []"
| "set_status_one i s (b # bs) =
     (if bk_id b = i then b\<lparr>bk_status := s\<rparr> # bs else b # set_status_one i s bs)"

section \<open>booking\_service.create\_booking\<close>

definition ascii_uppercase :: string where
  "ascii_uppercase = ''ABCDEFGHIJKLMNOPQRSTUVWXYZ''"

definition digits :: string where
  "digits = ''0123456789''"

text \<open>\<^verbatim>\<open>random.choices(population, k=k)\<close>: draw \<open>j\<close> picks an index of the population.\<close>

definition choices :: "'a list \<Rightarrow> nat \<Rightarrow> (nat \<Rightarrow> nat) \<Rightarrow> 'a list" where
  "choices population k r = map (\<lambda>j. population ! (r j mod length population)) [0..<k]"

text \<open>
  The first part of \<^verbatim>\<open>create_booking\<close>, up to the computed price: both identifiers are
  parsed, the package is read once, its status and its free slots are checked against that
  snapshot. The result is what the rest of the function keeps in local variables:
  \<open>(tourist_object_id, package_object_id, total_price)\<close>.
  \<^verbatim>\<open>TourPackageInDB.from_mongo\<close> returns \<^verbatim>\<open>None\<close> only for an empty document, so the
  branch with status 500 after it is never taken once the package was found.
  \<^verbatim>\<open>number_of_people\<close> is a plain \<^verbatim>\<open>int\<close> of the request model: no check bounds it
  from below.
\<close>

definition create_booking_check ::
  "float_ops \<Rightarrow> db \<Rightarrow> BookingCreate \<Rightarrow> string \<Rightarrow> error + (oid \<times> oid \<times> rat)" where
  "create_booking_check ops d booking tourist_id =
     (case ObjectId tourist_id of
        None \<Rightarrow> Inl (HTTPException 400 ''Invalid identifier provided'')
      | Some tourist_object_id \<Rightarrow>
     (case ObjectId (tour_package_id booking) of
        None \<Rightarrow> Inl (HTTPException 400 ''Invalid identifier provided'')
      | Some package_object_id \<Rightarrow>
     (case tour_packages d package_object_id of
        None \<Rightarrow> Inl (HTTPException 404 ''Tour package not found'')
      | Some package \<Rightarrow>
          if status package \<noteq> ACTIVE
          then Inl (HTTPException 400 ''This tour package is not currently available'')
          else
            let available_slots = max_participants package - current_participants package in
            if number_of_people booking > available_slots
            then Inl (HTTPException 400 (''Only '' @ str_int available_slots @ '' slots available''))
            else Inr (tourist_object_id, package_object_id,
                      fmul ops (price package) (number_of_people booking)))))"

text \<open>
  The second part: the reference is drawn, the booking is inserted, read back, and the
  package counter is incremented. No read of the package happens here. The function
  returns the document read back; its conversion to the response model (identifiers
  printed as strings) is not modelled.
\<close>

definition booking_data :: "env \<Rightarrow> BookingCreate \<Rightarrow> oid \<times> oid \<times> rat \<Rightarrow> booking_doc" where
  "booking_data e booking ctx =
     (case ctx of (tourist_object_id, package_object_id, total_price) \<Rightarrow>
        \<lparr> bk_id = new_id e,
          bk_tour_package_id = OidV package_object_id,
          bk_tourist_id = OidV tourist_object_id,
          bk_booking_date = now e,
          bk_travel_date = travel_date booking,
          bk_number_of_people = number_of_people booking,
          bk_total_price = total_price,
          bk_status = PENDING,
          bk_booking_reference = choices (ascii_uppercase @ digits) 8 (rnd e),
          bk_contact_phone = contact_phone booking,
          bk_emergency_contact_name = emergency_contact_name booking,
          bk_emergency_contact_number = emergency_contact_number booking,
          bk_special_requests = special_requests booking \<rparr>)"

definition create_booking_store ::
  "env \<Rightarrow> db \<Rightarrow> BookingCreate \<Rightarrow> oid \<times> oid \<times> rat \<Rightarrow> (error + booking_doc option) \<times> db" where
  "create_booking_store e d booking ctx =
     (case insert_one_booking d (booking_data e booking ctx) of
        Inl err \<Rightarrow> (Inl err, d)
      | Inr d1 \<Rightarrow>
          let created_booking = find_booking (new_id e) (bookings d1)
          in (Inr created_booking,
              inc_current_participants d1 (fst (snd ctx)) (number_of_people booking)))"

definition create_booking ::
  "float_ops \<Rightarrow> env \<Rightarrow> db \<Rightarrow> BookingCreate \<Rightarrow> string \<Rightarrow> (error + booking_doc option) \<times> db" where
  "create_booking ops e d booking tourist_id =
     (case create_booking_check ops d booking tourist_id of
        Inl err \<Rightarrow> (Inl err, d)
      | Inr ctx \<Rightarrow> create_booking_store e d booking ctx)"

section \<open>booking\_service.update\_booking\_status\<close>

text \<open>
  The dictionary \<^verbatim>\<open>valid_transitions\<close> of the source. A stored status is one of the four
  values of \<^verbatim>\<open>BookingStatus\<close>, the only ones the service writes.
\<close>

fun valid_transitions :: "BookingStatus \<Rightarrow> BookingStatus list" where
  "valid_transitions PENDING = [CONFIRMED, CANCELLED]"
| "valid_transitions CONFIRMED = [COMPLETED, CANCELLED]"
| "valid_transitions CANCELLED = []"
| "valid_transitions COMPLETED = []"

text \<open>
  The package a booking refers to, as the cancellation branch resolves it: an ObjectId is
  taken as it is, a string is parsed (and raises \<^verbatim>\<open>InvalidId\<close> when it is no ObjectId).
\<close>

fun package_ref :: "idval \<Rightarrow> oid option" where
  "package_ref (OidV x) = Some x"
| "package_ref (StrV s) = ObjectId s"

text \<open>
  \<^verbatim>\<open>update_one\<close> changes the first booking with the identifier; its \<^verbatim>\<open>modified_count\<close> is
  0 when the stored status already is the new one. The release of the slots comes after
  the status has been written, so an exception there leaves the new status stored.
\<close>

definition update_booking_status ::
  "db \<Rightarrow> string \<Rightarrow> BookingStatus \<Rightarrow> (error + booking_doc option) \<times> db" where
  "update_booking_status d booking_id new_status =
     (case ObjectId booking_id of
        None \<Rightarrow> (Inl (HTTPException 400 ''Invalid booking identifier''), d)
      | Some booking_object_id \<Rightarrow>
     (case find_booking booking_object_id (bookings d) of
        None \<Rightarrow> (Inl (HTTPException 404 ''Booking not found''), d)
      | Some booking \<Rightarrow>
          let current_status = bk_status booking in
          if new_status \<notin> set (valid_transitions current_status)
          then (Inl (HTTPException 400 (''Cannot transition from '' @ status_value current_status
                                         @ '' to '' @ status_value new_status)), d)
          else
            let modified_count = (if bk_status booking = new_status then 0 else 1 :: nat);
                d1 = d\<lparr>bookings := set_status_one booking_object_id new_status (bookings d)\<rparr>
            in if modified_count = 0
               then (Inl (HTTPException 404 ''Booking not found or no changes made''), d1)
               else if new_status = CANCELLED
               then (case package_ref (bk_tour_package_id booking) of
                       None \<Rightarrow> (Inl InvalidId, d1)
                     | Some package_object_id \<Rightarrow>
                         let d2 = inc_current_participants d1 package_object_id
                                    (- bk_number_of_people booking)
                         in (Inr (find_booking booking_object_id (bookings d2)), d2))
               else (Inr (find_booking booking_object_id (bookings d1)), d1)))"

section \<open>tour\_package\_service.update\_tour\_package\<close>

text \<open>
  The update is a \<^verbatim>\<open>$set\<close> of the fields the request carries, with no validation of
  their values. \<^verbatim>\<open>modified_count\<close> is 0 when the package is missing or the fields already
  hold the given values. \<^verbatim>\<open>ObjectId(package_id)\<close> stands outside any \<^verbatim>\<open>try\<close>, so an
  identifier that does not parse raises \<^verbatim>\<open>InvalidId\<close>.
\<close>

definition update_is_empty :: "TourPackageUpdate \<Rightarrow> bool" where
  "update_is_empty u =
     (upd_name u = None \<and> upd_price u = None \<and> upd_max_participants u = None
      \<and> upd_current_participants u = None \<and> upd_status u = None
      \<and> upd_average_rating u = None \<and> upd_total_ratings u = None)"

fun set_field :: "'a option \<Rightarrow> 'a \<Rightarrow> 'a" where
  "set_field None old = old"
| "set_field (Some v) old = v"

definition apply_set :: "TourPackageUpdate \<Rightarrow> package_doc \<Rightarrow> package_doc" where
  "apply_set u p = p\<lparr>
     name := set_field (upd_name u) (name p),
     price := set_field (upd_price u) (price p),
     max_participants := set_field (upd_max_participants u) (max_participants p),
     current_participants := set_field (upd_current_participants u) (current_participants p),
     status := set_field (upd_status u) (status p),
     average_rating := set_field (upd_average_rating u) (average_rating p),
     total_ratings := set_field (upd_total_ratings u) (total_ratings p) \<rparr>"

definition update_tour_package ::
  "db \<Rightarrow> string \<Rightarrow> TourPackageUpdate \<Rightarrow> (error + package_doc option) \<times> db" where
  "update_tour_package d package_id package_update =
     (if update_is_empty package_update
      then (Inl (HTTPException 400 ''No data provided for update''), d)
      else
        (case ObjectId package_id of
           None \<Rightarrow> (Inl InvalidId, d)
         | Some package_object_id \<Rightarrow>
        (case tour_packages d package_object_id of
           None \<Rightarrow> (Inl (HTTPException 404 ''Tour package not found or no changes made''), d)
         | Some p \<Rightarrow>
             if apply_set package_update p = p
             then (Inl (HTTPException 404 ''Tour package not found or no changes made''), d)
             else
               let d1 = d\<lparr>tour_packages :=
                           (tour_packages d)(package_object_id \<mapsto> apply_set package_update p)\<rparr>
               in (Inr (tour_packages d1 package_object_id), d1))))"

section \<open>rating\_service\<close>

text \<open>
  \<^verbatim>\<open>update_package_rating\<close>: the pipeline matches the ratings whose \<^verbatim>\<open>tour_package_id\<close> is
  the given string and groups them into their \<^verbatim>\<open>$avg\<close> and their number. The update of
  the package sets the fields \<^verbatim>\<open>average_rating\<close> and \<^verbatim>\<open>rating_count\<close>.
\<close>

definition ratings_for :: "string \<Rightarrow> rating_doc list \<Rightarrow> int list" where
  "ratings_for package_id rs = map rt_rating (filter (\<lambda>r. rt_tour_package_id r = package_id) rs)"

definition set_package_rating :: "db \<Rightarrow> oid \<Rightarrow> rat \<Rightarrow> int \<Rightarrow> db" where
  "set_package_rating d pid avg cnt =
     (case tour_packages d pid of
        None \<Rightarrow> d
      | Some p \<Rightarrow> d\<lparr>tour_packages :=
                     (tour_packages d)(pid \<mapsto> p\<lparr>average_rating := avg, rating_count := Some cnt\<rparr>)\<rparr>)"

definition update_package_rating :: "float_ops \<Rightarrow> db \<Rightarrow> string \<Rightarrow> db" where
  "update_package_rating ops d package_id =
     (case ObjectId package_id of
        None \<Rightarrow> d
      | Some package_object_id \<Rightarrow>
          let result = ratings_for package_id (ratings d) in
          if result \<noteq> []
          then
            let avg_rating = fround1 ops (favg ops result);
                count = int (length result)
            in set_package_rating d package_object_id avg_rating count
          else set_package_rating d package_object_id 0 0)"

definition insert_one_rating :: "db \<Rightarrow> rating_doc \<Rightarrow> error + db" where
  "insert_one_rating d doc =
     (if rt_id doc \<in> set (map rt_id (ratings d)) then Inl DuplicateKeyError
      else Inr (d\<lparr>ratings := ratings d @ [doc]\<rparr>))"

text \<open>
  The optional \<^verbatim>\<open>booking_id\<close> of a rating request: absent or empty gives no filter, otherwise
  it has to parse as an ObjectId. The outer \<open>None\<close> is the parse failure.
\<close>

definition booking_id_filter :: "string option \<Rightarrow> oid option option" where
  "booking_id_filter b =
     (case b of
        None \<Rightarrow> Some None
      | Some s \<Rightarrow> if s = [] then Some None else map_option Some (ObjectId s))"

text \<open>
  The eligibility query of \<^verbatim>\<open>create_rating\<close>: the package as an ObjectId, the tourist as
  the string of the request, the status \<^verbatim>\<open>completed\<close>, and the booking's \<^verbatim>\<open>_id\<close> when
  the request names one. The query for an existing rating compares both identifiers as
  strings.
\<close>

definition booking_query :: "oid \<Rightarrow> string \<Rightarrow> oid option \<Rightarrow> booking_doc \<Rightarrow> bool" where
  "booking_query package_object_id tourist idf b =
     (bk_tour_package_id b = OidV package_object_id
      \<and> bk_tourist_id b = StrV tourist
      \<and> bk_status b = COMPLETED
      \<and> (case idf of None \<Rightarrow> True | Some i \<Rightarrow> bk_id b = i))"

definition rating_query :: "string \<Rightarrow> string \<Rightarrow> rating_doc \<Rightarrow> bool" where
  "rating_query package_id tourist r =
     (rt_tour_package_id r = package_id \<and> rt_tourist_id r = tourist)"

definition rating_payload :: "env \<Rightarrow> RatingCreate \<Rightarrow> booking_doc \<Rightarrow> rating_doc" where
  "rating_payload e rating booking = \<lparr>
     rt_id = new_id e,
     rt_tour_package_id = rc_tour_package_id rating,
     rt_tourist_id = rc_tourist_id rating,
     rt_rating = rc_rating rating,
     rt_review = rc_review rating,
     rt_booking_id =
       (case rc_booking_id rating of
          None \<Rightarrow> Some (str_oid (bk_id booking))
        | Some s \<Rightarrow> if s = [] then Some (str_oid (bk_id booking)) else Some s),
     rt_created_at = now e \<rparr>"

definition create_rating ::
  "float_ops \<Rightarrow> env \<Rightarrow> db \<Rightarrow> RatingCreate \<Rightarrow> (error + rating_doc option) \<times> db" where
  "create_rating ops e d rating =
     (case ObjectId (rc_tour_package_id rating) of
        None \<Rightarrow> (Inl (HTTPException 400 ''Invalid tour package identifier provided''), d)
      | Some package_object_id \<Rightarrow>
     (case booking_id_filter (rc_booking_id rating) of
        None \<Rightarrow> (Inl (HTTPException 400 ''Invalid booking identifier provided''), d)
      | Some idf \<Rightarrow>
     (case List.find (booking_query package_object_id (rc_tourist_id rating) idf) (bookings d) of
        None \<Rightarrow> (Inl (HTTPException 400 ''You can only rate packages you've completed''), d)
      | Some booking \<Rightarrow>
     (case List.find (rating_query (rc_tour_package_id rating) (rc_tourist_id rating)) (ratings d) of
        Some existing_rating \<Rightarrow> (Inl (HTTPException 400 ''You've already rated this package''), d)
      | None \<Rightarrow>
          if \<not> (1 \<le> rc_rating rating \<and> rc_rating rating \<le> 5)
          then (Inl (HTTPException 400 ''Rating must be between 1 and 5''), d)
          else
            (case insert_one_rating d (rating_payload e rating booking) of
               Inl err \<Rightarrow> (Inl err, d)
             | Inr d1 \<Rightarrow>
                 (Inr (List.find (\<lambda>r. rt_id r = new_id e) (ratings d1)),
                  update_package_rating ops d1 (rc_tour_package_id rating)))))))"

section \<open>Sequences of operations\<close>

text \<open>
  The requests the services answer, and the database after one of them and after a
  sequence of them. A request that is refused leaves the database as its function returns
  it.
\<close>

datatype operation =
    CreateBooking env BookingCreate string
  | UpdateBookingStatus string BookingStatus
  | UpdateTourPackage string TourPackageUpdate
  | CreateRating env RatingCreate

fun step :: "float_ops \<Rightarrow> db \<Rightarrow> operation \<Rightarrow> db" where
  "step ops d (CreateBooking e booking tourist_id) = snd (create_booking ops e d booking tourist_id)"
| "step ops d (UpdateBookingStatus booking_id new_status) =
     snd (update_booking_status d booking_id new_status)"
| "step ops d (UpdateTourPackage package_id package_update) =
     snd (update_tour_package d package_id package_update)"
| "step ops d (CreateRating e rating) = snd (create_rating ops e d rating)"

fun run :: "float_ops \<Rightarrow> db \<Rightarrow> operation list \<Rightarrow> db" where
  "run ops d [] = d"
| "run ops d (x # xs) = run ops (step ops d x) xs"

section \<open>Vocabulary of the properties and example data\<close>



text \<open>
  Float operations without rounding error, used to evaluate the example data: the exact
  product, the exact mean, and rounding to one decimal place with ties to even. They agree
  with the operations on doubles up to the representation error of the result wherever
  the exact result is no rounding tie.
\<close>

definition exact_ops :: float_ops where
  "exact_ops = \<lparr>
     fmul = (\<lambda>p n. p * of_int n),
     favg = (\<lambda>xs. of_int (sum_list xs) / of_int (int (length xs))),
     fround1 = (\<lambda>x. let f = \<lfloor>x * 10\<rfloor>; r = x * 10 - of_int f
                     in of_int (if r < 1/2 then f else if 1/2 < r then f + 1
                                else if even f then f else f + 1) / 10) \<rparr>"

text \<open>
  Example data: one active package with price 100, a tourist, and bookings of that tourist
  as \<^verbatim>\<open>create_booking\<close> writes them.
\<close>

definition demo_package_id :: string where "demo_package_id = ''5f0000000000000000000001''"

definition demo_tourist_id :: string where "demo_tourist_id = ''5f00000000000000000000a1''"

definition demo_booking_id :: string where "demo_booking_id = ''5f00000000000000000000b1''"

definition other_booking_id :: string where "other_booking_id = ''5f00000000000000000000b2''"

definition demo_package :: "int \<Rightarrow> int \<Rightarrow> package_doc" where
  "demo_package cap cur = \<lparr> name = ''Hunza Valley'', price = 100, max_participants = cap,
     current_participants = cur, status = ACTIVE, average_rating = 0, total_ratings = 0,
     rating_count = None \<rparr>"

definition demo_db :: "int \<Rightarrow> int \<Rightarrow> booking_doc list \<Rightarrow> db" where
  "demo_db cap cur bs = \<lparr> tour_packages = [OID demo_package_id \<mapsto> demo_package cap cur],
     bookings = bs, ratings = [], booking_reference_unique = False \<rparr>"

definition demo_env :: "string \<Rightarrow> env" where
  "demo_env i = \<lparr> new_id = OID i, rnd = (\<lambda>j. 7 * j + 30), now = 1000 \<rparr>"

definition demo_request :: "int \<Rightarrow> BookingCreate" where
  "demo_request n = \<lparr> tour_package_id = demo_package_id, travel_date = 2000, number_of_people = n,
     contact_phone = ''0300'', emergency_contact_name = ''A'', emergency_contact_number = ''0301'',
     special_requests = None \<rparr>"

definition demo_booking :: "string \<Rightarrow> int \<Rightarrow> BookingStatus \<Rightarrow> booking_doc" where
  "demo_booking i n s = \<lparr> bk_id = OID i, bk_tour_package_id = OidV (OID demo_package_id),
     bk_tourist_id = OidV (OID demo_tourist_id), bk_booking_date = 1000, bk_travel_date = 2000,
     bk_number_of_people = n, bk_total_price = 100 * of_int n, bk_status = s,
     bk_booking_reference = ''4BIPW3AH'', bk_contact_phone = ''0300'',
     bk_emergency_contact_name = ''A'', bk_emergency_contact_number = ''0301'',
     bk_special_requests = None \<rparr>"

definition reset_counter :: TourPackageUpdate where
  "reset_counter = \<lparr> upd_name = None, upd_price = None, upd_max_participants = None,
     upd_current_participants = Some 0, upd_status = None, upd_average_rating = None,
     upd_total_ratings = None \<rparr>"

text \<open>
  The capacity invariant of a package, and the bookkeeping that keeps it: a booking holds
  slots of a package while it is pending or confirmed, and the counter of every package
  covers the slots held against it.
\<close>

definition capacity_ok :: "db \<Rightarrow> bool" where
  "capacity_ok d = (\<forall>pid p. tour_packages d pid = Some p \<longrightarrow>
                      0 \<le> current_participants p \<and> current_participants p \<le> max_participants p)"

definition active :: "booking_doc \<Rightarrow> bool" where
  "active b = (bk_status b = PENDING \<or> bk_status b = CONFIRMED)"

definition holds_slots :: "oid \<Rightarrow> booking_doc \<Rightarrow> bool" where
  "holds_slots pid b = (active b \<and> package_ref (bk_tour_package_id b) = Some pid)"

definition held :: "booking_doc list \<Rightarrow> oid \<Rightarrow> int" where
  "held bs pid = sum_list (map bk_number_of_people (filter (holds_slots pid) bs))"

definition ledger_ok :: "db \<Rightarrow> bool" where
  "ledger_ok d = ((\<forall>b \<in> set (bookings d). active b \<longrightarrow> 0 \<le> bk_number_of_people b)
                  \<and> (\<forall>pid p. tour_packages d pid = Some p \<longrightarrow>
                        held (bookings d) pid \<le> current_participants p))"

definition counters :: "db \<Rightarrow> oid \<Rightarrow> (int \<times> int) option" where
  "counters d pid = map_option (\<lambda>p. (current_participants p, max_participants p)) (tour_packages d pid)"

definition consistent :: "db \<Rightarrow> bool" where
  "consistent d = (capacity_ok d \<and> ledger_ok d)"

text \<open>
  The operations under which the invariant is kept: a booking for a party of negative
  size and a package update that sets \<^verbatim>\<open>max_participants\<close> or
  \<^verbatim>\<open>current_participants\<close> are left out.
\<close>

fun permitted :: "operation \<Rightarrow> bool" where
  "permitted (CreateBooking e booking tourist_id) = (0 \<le> number_of_people booking)"
| "permitted (UpdateTourPackage package_id u) =
     (upd_max_participants u = None \<and> upd_current_participants u = None)"
| "permitted (UpdateBookingStatus booking_id new_status) = True"
| "permitted (CreateRating e rating) = True"

definition update_none :: TourPackageUpdate where
  "update_none = \<lparr> upd_name = None, upd_price = None, upd_max_participants = None,
     upd_current_participants = None, upd_status = None, upd_average_rating = None,
     upd_total_ratings = None \<rparr>"

definition shrink_capacity :: TourPackageUpdate where
  "shrink_capacity = update_none\<lparr>upd_max_participants := Some 2\<rparr>"

definition demo_ctx :: "int \<Rightarrow> oid \<times> oid \<times> rat" where
  "demo_ctx n = (OID demo_tourist_id, OID demo_package_id, 100 * of_int n)"

text \<open>A database that carries the unique index on \<^verbatim>\<open>booking_reference\<close>.\<close>

definition indexed_db :: db where
  "indexed_db = (demo_db 10 4 [(demo_booking other_booking_id 4 CONFIRMED)
                                 \<lparr>bk_booking_reference := ''ZZZZ9999''\<rparr>])
                  \<lparr>booking_reference_unique := True\<rparr>"

text \<open>The identifier and the stored price of every booking, in insertion order.\<close>

definition price_ledger :: "booking_doc list \<Rightarrow> (oid \<times> rat) list" where
  "price_ledger bs = map (\<lambda>b. (bk_id b, bk_total_price b)) bs"

definition raise_price :: TourPackageUpdate where
  "raise_price = update_none\<lparr>upd_price := Some 250\<rparr>"

text \<open>
  Example data of the rating service: a completed booking whose tourist is stored as a
  string, and a database with two earlier ratings of the package by other tourists.
\<close>

definition demo_rating_id :: string where "demo_rating_id = ''5f00000000000000000000c1''"

definition legacy_booking :: "string \<Rightarrow> BookingStatus \<Rightarrow> booking_doc" where
  "legacy_booking i s = (demo_booking i 2 s)\<lparr>bk_tourist_id := StrV demo_tourist_id\<rparr>"

definition old_rating :: "string \<Rightarrow> string \<Rightarrow> int \<Rightarrow> rating_doc" where
  "old_rating i tourist v = \<lparr> rt_id = OID i, rt_tour_package_id = demo_package_id,
     rt_tourist_id = tourist, rt_rating = v, rt_review = None, rt_booking_id = None,
     rt_created_at = 500 \<rparr>"

definition rating_db :: "booking_doc list \<Rightarrow> rating_doc list \<Rightarrow> db" where
  "rating_db bs rs = \<lparr> tour_packages = [OID demo_package_id \<mapsto> demo_package 10 2],
     bookings = bs, ratings = rs, booking_reference_unique = False \<rparr>"

definition rated_db :: db where
  "rated_db = rating_db [legacy_booking demo_booking_id COMPLETED]
                [old_rating ''5f00000000000000000000c2'' ''5f00000000000000000000a2'' 1,
                 old_rating ''5f00000000000000000000c3'' ''5f00000000000000000000a3'' 2]"

definition demo_rating :: "int \<Rightarrow> string option \<Rightarrow> RatingCreate" where
  "demo_rating v bid = \<lparr> rc_tour_package_id = demo_package_id, rc_tourist_id = demo_tourist_id,
     rc_rating = v, rc_review = None, rc_booking_id = bid \<rparr>"



text \<open>Whether the tourist of a booking is stored as an ObjectId, as \<^verbatim>\<open>create_booking\<close> writes it.\<close>

definition tourist_is_object_id :: "booking_doc \<Rightarrow> bool" where
  "tourist_is_object_id b = (case bk_tourist_id b of OidV x \<Rightarrow> True | StrV s \<Rightarrow> False)"

definition twice_rated_db :: db where
  "twice_rated_db = rating_db [legacy_booking demo_booking_id COMPLETED]
                      [old_rating ''5f00000000000000000000c2'' demo_tourist_id 5]"

section \<open>Lemmas about the store operations\<close>


lemma valid_transitions_irrefl: "new \<in> set (valid_transitions cur) \<Longrightarrow> cur \<noteq> new"
  by (cases cur; cases new) simp_all

lemma find_booking_set_status:
  "find_booking i bs = Some b \<Longrightarrow>
   find_booking i (set_status_one i s bs) = Some (b\<lparr>bk_status := s\<rparr>)"
  by (induction bs) (auto simp: find_booking_def split: if_splits)

lemma bookings_inc [simp]: "bookings (inc_current_participants d pid k) = bookings d"
  by (simp add: inc_current_participants_def split: option.splits)

lemma tour_packages_inc:
  "tour_packages (inc_current_participants d pid k) =
     (case tour_packages d pid of
        None \<Rightarrow> tour_packages d
      | Some p \<Rightarrow> (tour_packages d)(pid \<mapsto> p\<lparr>current_participants := current_participants p + k\<rparr>))"
  by (simp add: inc_current_participants_def split: option.splits)

lemma update_booking_status_allowed:
  assumes "ObjectId booking_id = Some i" and "find_booking i (bookings d) = Some b"
    and "new \<in> set (valid_transitions (bk_status b))"
  shows "update_booking_status d booking_id new =
     (let d1 = d\<lparr>bookings := set_status_one i new (bookings d)\<rparr> in
      if new = CANCELLED
      then (case package_ref (bk_tour_package_id b) of
              None \<Rightarrow> (Inl InvalidId, d1)
            | Some pid \<Rightarrow> (Inr (Some (b\<lparr>bk_status := new\<rparr>)),
                           inc_current_participants d1 pid (- bk_number_of_people b)))
      else (Inr (Some (b\<lparr>bk_status := new\<rparr>)), d1))"
  using assms valid_transitions_irrefl[OF assms(3)]
  by (simp add: update_booking_status_def Let_def find_booking_set_status split: option.splits)

lemma update_booking_status_refused:
  assumes "ObjectId booking_id = Some i" and "find_booking i (bookings d) = Some b"
    and "new \<notin> set (valid_transitions (bk_status b))"
  shows "update_booking_status d booking_id new =
     (Inl (HTTPException 400 (''Cannot transition from '' @ status_value (bk_status b)
                              @ '' to '' @ status_value new)), d)"
  using assms by (simp add: update_booking_status_def Let_def)

lemma update_booking_status_packages_frame:
  "new \<noteq> CANCELLED \<Longrightarrow>
   tour_packages (snd (update_booking_status d booking_id new)) = tour_packages d"
  by (simp add: update_booking_status_def Let_def split: option.splits)

lemma find_booking_mem: "find_booking i bs = Some b \<Longrightarrow> b \<in> set bs"
  by (induction bs) (auto simp: find_booking_def split: if_splits)

lemma valid_transitions_active: "new \<in> set (valid_transitions (bk_status b)) \<Longrightarrow> active b"
  by (cases "bk_status b") (auto simp: active_def)

lemma valid_transitions_target: "new \<in> set (valid_transitions cur) \<Longrightarrow> new \<noteq> PENDING"
  by (cases cur) auto

lemma find_booking_append_fresh:
  "i \<notin> bk_id ` set bs \<Longrightarrow> bk_id b = i \<Longrightarrow> find_booking i (bs @ [b]) = Some b"
  by (induction bs) (auto simp: find_booking_def)

lemma create_booking_failure:
  "fst (create_booking ops e d booking tourist_id) = Inl err \<Longrightarrow>
   snd (create_booking ops e d booking tourist_id) = d"
  by (auto simp: create_booking_def create_booking_store_def Let_def split: sum.splits)

lemma create_booking_success:
  assumes "fst (create_booking ops e d booking tourist_id) = Inr r"
  shows "\<exists>t pid p. ObjectId tourist_id = Some t
           \<and> ObjectId (tour_package_id booking) = Some pid
           \<and> tour_packages d pid = Some p
           \<and> status p = ACTIVE
           \<and> number_of_people booking \<le> max_participants p - current_participants p
           \<and> new_id e \<notin> bk_id ` set (bookings d)
           \<and> (booking_reference_unique d \<longrightarrow>
                 choices (ascii_uppercase @ digits) 8 (rnd e)
                   \<notin> bk_booking_reference ` set (bookings d))
           \<and> create_booking ops e d booking tourist_id =
               (Inr (Some (booking_data e booking
                             (t, pid, fmul ops (price p) (number_of_people booking)))),
                inc_current_participants
                  (d\<lparr>bookings := bookings d @
                       [booking_data e booking
                          (t, pid, fmul ops (price p) (number_of_people booking))]\<rparr>)
                  pid (number_of_people booking))"
proof -
  from assms obtain ctx where chk: "create_booking_check ops d booking tourist_id = Inr ctx"
    by (auto simp: create_booking_def split: sum.splits)
  then obtain t pid p where ids: "ObjectId tourist_id = Some t"
      "ObjectId (tour_package_id booking) = Some pid" "tour_packages d pid = Some p"
    and ok: "status p = ACTIVE"
      "number_of_people booking \<le> max_participants p - current_participants p"
    and ctx: "ctx = (t, pid, fmul ops (price p) (number_of_people booking))"
    by (auto simp: create_booking_check_def Let_def split: option.splits if_splits)
  let ?doc = "booking_data e booking ctx"
  have idd: "bk_id ?doc = new_id e"
    "bk_booking_reference ?doc = choices (ascii_uppercase @ digits) 8 (rnd e)"
    by (simp_all add: booking_data_def ctx)
  from assms chk obtain d1 where ins: "insert_one_booking d ?doc = Inr d1"
    by (auto simp: create_booking_def create_booking_store_def split: sum.splits)
  then have fresh: "new_id e \<notin> bk_id ` set (bookings d)"
    and uniq: "booking_reference_unique d \<longrightarrow>
                 choices (ascii_uppercase @ digits) 8 (rnd e)
                   \<notin> bk_booking_reference ` set (bookings d)"
    and d1: "d1 = d\<lparr>bookings := bookings d @ [?doc]\<rparr>"
    by (auto simp: insert_one_booking_def idd split: if_splits)
  have fnd: "find_booking (new_id e) (bookings d1) = Some ?doc"
    using find_booking_append_fresh[OF fresh idd(1)] by (simp add: d1)
  show ?thesis
    using ids ok fresh uniq
    by (simp add: create_booking_def chk create_booking_store_def ins fnd Let_def)
       (simp add: d1 ctx)
qed

lemma choices_length: "length (choices population k r) = k"
  by (simp add: choices_def)

lemma choices_subset: "population \<noteq> [] \<Longrightarrow> set (choices population k r) \<subseteq> set population"
  by (auto simp: choices_def)

lemma booking_reference_of_data:
  "bk_booking_reference (booking_data e booking ctx) = choices (ascii_uppercase @ digits) 8 (rnd e)"
  by (cases ctx) (simp add: booking_data_def)

lemma bookings_update_booking_status:
  "bookings (snd (update_booking_status d booking_id new)) = bookings d
   \<or> (\<exists>i. bookings (snd (update_booking_status d booking_id new))
            = set_status_one i new (bookings d))"
  by (auto simp: update_booking_status_def Let_def split: option.splits)

lemma bookings_update_tour_package [simp]:
  "bookings (snd (update_tour_package d package_id u)) = bookings d"
  by (simp add: update_tour_package_def Let_def split: option.splits)

lemma bookings_set_rating [simp]:
  "bookings (set_package_rating d pid a c) = bookings d"
  by (simp add: set_package_rating_def split: option.splits)

lemma bookings_update_package_rating [simp]:
  "bookings (update_package_rating ops d package_id) = bookings d"
  by (simp add: update_package_rating_def Let_def split: option.splits)

lemma bookings_create_rating [simp]:
  "bookings (snd (create_rating ops e d rating)) = bookings d"
  by (auto simp: create_rating_def Let_def insert_one_rating_def
           split: option.splits sum.splits if_splits)

lemma bookings_create_booking:
  "bookings (snd (create_booking ops e d booking tourist_id)) = bookings d
   \<or> (\<exists>ctx. bookings (snd (create_booking ops e d booking tourist_id))
              = bookings d @ [booking_data e booking ctx])"
  by (auto simp: create_booking_def create_booking_store_def insert_one_booking_def Let_def
           split: sum.splits if_splits)

lemma ratings_set_package_rating [simp]:
  "ratings (set_package_rating d pid a c) = ratings d"
  by (simp add: set_package_rating_def split: option.splits)

lemma ratings_update_package_rating [simp]:
  "ratings (update_package_rating ops d package_id) = ratings d"
  by (simp add: update_package_rating_def Let_def split: option.splits)

lemma average_after_update_package_rating:
  assumes "ObjectId package_id = Some pid" and "tour_packages d pid = Some p"
    and "ratings_for package_id (ratings d) \<noteq> []"
  shows "tour_packages (update_package_rating ops d package_id) =
           (tour_packages d)(pid \<mapsto>
              p\<lparr>average_rating := fround1 ops (favg ops (ratings_for package_id (ratings d))),
                rating_count := Some (int (length (ratings_for package_id (ratings d))))\<rparr>)"
  using assms by (simp add: update_package_rating_def Let_def set_package_rating_def)

lemma find_rating_append_fresh:
  "i \<notin> rt_id ` set rs \<Longrightarrow> rt_id r = i \<Longrightarrow> List.find (\<lambda>r. rt_id r = i) (rs @ [r]) = Some r"
  by (induction rs) auto

lemma rating_payload_id [simp]: "rt_id (rating_payload e rating booking) = new_id e"
  by (simp add: rating_payload_def)

lemma create_rating_accepts:
  assumes "ObjectId (rc_tour_package_id rating) = Some pid"
    and "booking_id_filter (rc_booking_id rating) = Some idf"
    and "List.find (booking_query pid (rc_tourist_id rating) idf) (bookings d) = Some booking"
    and "List.find (rating_query (rc_tour_package_id rating) (rc_tourist_id rating)) (ratings d) = None"
    and "1 \<le> rc_rating rating" and "rc_rating rating \<le> 5"
    and "new_id e \<notin> rt_id ` set (ratings d)"
  shows "create_rating ops e d rating =
           (Inr (Some (rating_payload e rating booking)),
            update_package_rating ops (d\<lparr>ratings := ratings d @ [rating_payload e rating booking]\<rparr>)
              (rc_tour_package_id rating))"
proof -
  have i: "rt_id (rating_payload e rating booking) = new_id e"
    by (simp add: rating_payload_def)
  show ?thesis
    using assms find_rating_append_fresh[OF assms(7) i]
    by (simp add: create_rating_def insert_one_rating_def i)
qed

lemma create_rating_success:
  assumes "fst (create_rating ops e d rating) = Inr r"
  shows "\<exists>pid idf booking.
           ObjectId (rc_tour_package_id rating) = Some pid
         \<and> booking_id_filter (rc_booking_id rating) = Some idf
         \<and> List.find (booking_query pid (rc_tourist_id rating) idf) (bookings d) = Some booking
         \<and> List.find (rating_query (rc_tour_package_id rating) (rc_tourist_id rating)) (ratings d) = None
         \<and> 1 \<le> rc_rating rating \<and> rc_rating rating \<le> 5
         \<and> new_id e \<notin> rt_id ` set (ratings d)"
  using assms
  by (auto simp: create_rating_def insert_one_rating_def
           split: option.splits sum.splits if_splits)

lemma create_rating_not_eligible:
  assumes "ObjectId (rc_tour_package_id rating) = Some pid"
    and "booking_id_filter (rc_booking_id rating) = Some idf"
    and "List.find (booking_query pid (rc_tourist_id rating) idf) (bookings d) = None"
  shows "create_rating ops e d rating =
           (Inl (HTTPException 400 ''You can only rate packages you've completed''), d)"
  using assms by (simp add: create_rating_def)



section \<open>The example data evaluated\<close>

lemma demo_ids:
  "ObjectId demo_package_id = Some (OID demo_package_id)"
  "ObjectId demo_tourist_id = Some (OID demo_tourist_id)"
  "ObjectId demo_booking_id = Some (OID demo_booking_id)"
  "ObjectId other_booking_id = Some (OID other_booking_id)"
  by (simp_all add: ObjectId_def is_hex_def lower_hex_def demo_package_id_def demo_tourist_id_def
        demo_booking_id_def other_booking_id_def)

lemma demo_choices: "choices (ascii_uppercase @ digits) 8 (\<lambda>j. 7 * j + 30) = ''4BIPW3AH''"
  by code_simp

lemma demo_reference: "choices (ascii_uppercase @ digits) 8 (rnd (demo_env i)) = ''4BIPW3AH''"
  by (simp add: demo_env_def demo_choices)

lemma demo_booking_fields [simp]:
  "bk_id (demo_booking i n s) = OID i"
  "bk_status (demo_booking i n s) = s"
  "bk_number_of_people (demo_booking i n s) = n"
  "bk_tour_package_id (demo_booking i n s) = OidV (OID demo_package_id)"
  "bk_tourist_id (demo_booking i n s) = OidV (OID demo_tourist_id)"
  "bk_total_price (demo_booking i n s) = 100 * of_int n"
  "bk_booking_reference (demo_booking i n s) = ''4BIPW3AH''"
  "(demo_booking i n s)\<lparr>bk_status := s'\<rparr> = demo_booking i n s'"
  by (simp_all add: demo_booking_def)

lemma demo_find_booking:
  "find_booking (OID i) [demo_booking i n s] = Some (demo_booking i n s)"
  by (simp add: find_booking_def demo_booking_def)

lemma demo_packages [simp]:
  "tour_packages (demo_db cap cur bs) = [OID demo_package_id \<mapsto> demo_package cap cur]"
  "bookings (demo_db cap cur bs) = bs"
  "(demo_package cap cur)\<lparr>current_participants := k\<rparr> = demo_package cap k"
  "current_participants (demo_package cap cur) = cur"
  "max_participants (demo_package cap cur) = cap"
  by (simp_all add: demo_db_def demo_package_def)

lemma demo_create_booking:
  assumes "n \<le> cap - cur" and "OID i \<notin> bk_id ` set bs"
  shows "create_booking exact_ops (demo_env i) (demo_db cap cur bs) (demo_request n) demo_tourist_id =
           (Inr (Some (demo_booking i n PENDING)),
            demo_db cap (cur + n) (bs @ [demo_booking i n PENDING]))"
proof -
  have chk: "create_booking_check exact_ops (demo_db cap cur bs) (demo_request n) demo_tourist_id =
               Inr (OID demo_tourist_id, OID demo_package_id, 100 * of_int n)"
    using assms(1)
    by (simp add: create_booking_check_def demo_ids demo_request_def demo_db_def demo_package_def
          exact_ops_def)
  have fnd: "find_booking (OID i) (bs @ [demo_booking i n PENDING]) = Some (demo_booking i n PENDING)"
    using assms(2) by (induction bs) (auto simp: find_booking_def demo_booking_def)
  show ?thesis
    using assms(2) fnd
    by (simp add: create_booking_def chk create_booking_store_def booking_data_def demo_reference
          Let_def insert_one_booking_def inc_current_participants_def)
       (simp add: demo_db_def demo_env_def demo_request_def demo_booking_def demo_package_def)
qed

lemma demo_reset_counter:
  "cur \<noteq> 0 \<Longrightarrow> update_tour_package (demo_db cap cur bs) demo_package_id reset_counter =
     (Inr (Some (demo_package cap 0)), demo_db cap 0 bs)"
  by (simp add: update_tour_package_def update_is_empty_def reset_counter_def demo_ids apply_set_def
        Let_def)
     (simp add: demo_db_def demo_package_def)

lemma demo_cancel:
  "update_booking_status (demo_db cap cur [demo_booking demo_booking_id n PENDING])
     demo_booking_id CANCELLED =
   (Inr (Some (demo_booking demo_booking_id n CANCELLED)),
    demo_db cap (cur - n) [demo_booking demo_booking_id n CANCELLED])"
proof -
  have f: "find_booking (OID demo_booking_id)
             (bookings (demo_db cap cur [demo_booking demo_booking_id n PENDING]))
             = Some (demo_booking demo_booking_id n PENDING)"
    by (simp add: demo_find_booking)
  have s: "CANCELLED \<in> set (valid_transitions (bk_status (demo_booking demo_booking_id n PENDING)))"
    by simp
  show ?thesis
    using update_booking_status_allowed[OF demo_ids(3) f s]
    by (simp add: Let_def inc_current_participants_def) (simp add: demo_db_def demo_package_def)
qed

lemma demo_request_fields:
  "number_of_people (demo_request n) = n"
  "tour_package_id (demo_request n) = demo_package_id"
  by (simp_all add: demo_request_def)

lemma demo_check:
  "n \<le> cap - cur \<Longrightarrow>
   create_booking_check exact_ops (demo_db cap cur bs) (demo_request n) demo_tourist_id
     = Inr (demo_ctx n)"
  by (simp add: create_booking_check_def demo_ids demo_request_def demo_db_def demo_package_def
        exact_ops_def demo_ctx_def)

lemma demo_store:
  assumes "OID i \<notin> bk_id ` set bs"
  shows "create_booking_store (demo_env i) (demo_db cap cur bs) (demo_request n) (demo_ctx n) =
           (Inr (Some (demo_booking i n PENDING)),
            demo_db cap (cur + n) (bs @ [demo_booking i n PENDING]))"
proof -
  have doc: "booking_data (demo_env i) (demo_request n) (demo_ctx n) = demo_booking i n PENDING"
    by (simp add: booking_data_def demo_ctx_def demo_reference)
       (simp add: demo_env_def demo_request_def demo_booking_def)
  have fnd: "find_booking (OID i) (bs @ [demo_booking i n PENDING]) = Some (demo_booking i n PENDING)"
    using assms by (simp add: find_booking_append_fresh)
  have pid: "fst (snd (demo_ctx n)) = OID demo_package_id"
    by (simp add: demo_ctx_def)
  show ?thesis
    using assms fnd
    by (simp add: create_booking_store_def doc pid insert_one_booking_def Let_def
          inc_current_participants_def)
       (simp add: demo_db_def demo_package_def demo_request_def demo_env_def)
qed

lemma demo_raise_price:
  "update_tour_package (demo_db cap cur bs) demo_package_id raise_price =
     (Inr (Some ((demo_package cap cur)\<lparr>price := 250\<rparr>)),
      (demo_db cap cur bs)\<lparr>tour_packages :=
         [OID demo_package_id \<mapsto> (demo_package cap cur)\<lparr>price := 250\<rparr>]\<rparr>)"
  by (simp add: update_tour_package_def update_is_empty_def raise_price_def update_none_def
        demo_ids apply_set_def Let_def)
     (simp add: demo_db_def demo_package_def)

lemma legacy_booking_fields [simp]:
  "bk_id (legacy_booking i s) = OID i"
  "bk_status (legacy_booking i s) = s"
  "bk_tour_package_id (legacy_booking i s) = OidV (OID demo_package_id)"
  "bk_tourist_id (legacy_booking i s) = StrV demo_tourist_id"
  by (simp_all add: legacy_booking_def)

lemma demo_rating_fields [simp]:
  "rc_tour_package_id (demo_rating v bid) = demo_package_id"
  "rc_tourist_id (demo_rating v bid) = demo_tourist_id"
  "rc_rating (demo_rating v bid) = v"
  "rc_booking_id (demo_rating v bid) = bid"
  by (simp_all add: demo_rating_def)

lemma rated_db_fields [simp]:
  "bookings rated_db = [legacy_booking demo_booking_id COMPLETED]"
  "tour_packages rated_db = [OID demo_package_id \<mapsto> demo_package 10 2]"
  "ratings_for demo_package_id (ratings rated_db) = [1, 2]"
  by (simp_all add: rated_db_def rating_db_def ratings_for_def old_rating_def)

lemma rated_db_accepts:
  "create_rating exact_ops (demo_env demo_rating_id) rated_db (demo_rating 2 None) =
     (Inr (Some (rating_payload (demo_env demo_rating_id) (demo_rating 2 None)
                   (legacy_booking demo_booking_id COMPLETED))),
      update_package_rating exact_ops
        (rated_db\<lparr>ratings := ratings rated_db @
            [rating_payload (demo_env demo_rating_id) (demo_rating 2 None)
               (legacy_booking demo_booking_id COMPLETED)]\<rparr>)
        (rc_tour_package_id (demo_rating 2 None)))"
proof (rule create_rating_accepts)
  show "ObjectId (rc_tour_package_id (demo_rating 2 None)) = Some (OID demo_package_id)"
    by (simp add: demo_ids)
  show "booking_id_filter (rc_booking_id (demo_rating 2 None)) = Some None"
    by (simp add: booking_id_filter_def)
  show "List.find (booking_query (OID demo_package_id) (rc_tourist_id (demo_rating 2 None)) None)
          (bookings rated_db) = Some (legacy_booking demo_booking_id COMPLETED)"
    by (simp add: booking_query_def)
  show "List.find (rating_query (rc_tour_package_id (demo_rating 2 None))
                    (rc_tourist_id (demo_rating 2 None))) (ratings rated_db) = None"
    by (simp add: rating_query_def rated_db_def rating_db_def old_rating_def demo_tourist_id_def)
  show "1 \<le> rc_rating (demo_rating 2 None)" "rc_rating (demo_rating 2 None) \<le> 5"
    by simp_all
  show "new_id (demo_env demo_rating_id) \<notin> rt_id ` set (ratings rated_db)"
    by (simp add: demo_env_def rated_db_def rating_db_def old_rating_def demo_rating_id_def)
qed

lemma exact_mean: "fround1 exact_ops (favg exact_ops [1, 2, 2]) = 17 / 10"
  by code_simp

lemma twice_rated_db_fields [simp]:
  "bookings twice_rated_db = [legacy_booking demo_booking_id COMPLETED]"
  "ratings twice_rated_db = [old_rating ''5f00000000000000000000c2'' demo_tourist_id 5]"
  by (simp_all add: twice_rated_db_def rating_db_def)

lemma old_rating_fields [simp]:
  "rt_tour_package_id (old_rating i t v) = demo_package_id"
  "rt_tourist_id (old_rating i t v) = t"
  "rt_rating (old_rating i t v) = v"
  by (simp_all add: old_rating_def)

lemma demo_ids_distinct [simp]:
  "other_booking_id \<noteq> demo_booking_id" "demo_booking_id \<noteq> other_booking_id"
  by (simp_all add: other_booking_id_def demo_booking_id_def)

lemma demo_transition:
  assumes "new \<in> set (valid_transitions s)" and "new \<noteq> CANCELLED"
  shows "update_booking_status (demo_db cap cur [demo_booking demo_booking_id n s])
           demo_booking_id new =
         (Inr (Some (demo_booking demo_booking_id n new)),
          demo_db cap cur [demo_booking demo_booking_id n new])"
proof -
  have f: "find_booking (OID demo_booking_id)
             (bookings (demo_db cap cur [demo_booking demo_booking_id n s]))
             = Some (demo_booking demo_booking_id n s)"
    by (simp add: demo_find_booking)
  have v: "new \<in> set (valid_transitions (bk_status (demo_booking demo_booking_id n s)))"
    using assms(1) by simp
  show ?thesis
    using update_booking_status_allowed[OF demo_ids(3) f v] assms(2)
    by (simp add: Let_def) (simp add: demo_db_def)
qed

section \<open>The capacity invariant\<close>

lemma held_append:
  "held (bs @ [b]) pid = held bs pid + (if holds_slots pid b then bk_number_of_people b else 0)"
  by (simp add: held_def)

lemma held_nonneg:
  "\<forall>b \<in> set bs. active b \<longrightarrow> 0 \<le> bk_number_of_people b \<Longrightarrow> 0 \<le> held bs pid"
  unfolding held_def by (induction bs) (auto simp: holds_slots_def)

lemma held_set_status:
  "find_booking i bs = Some b \<Longrightarrow>
   held (set_status_one i s bs) pid =
     held bs pid - (if holds_slots pid b then bk_number_of_people b else 0)
                 + (if holds_slots pid (b\<lparr>bk_status := s\<rparr>) then bk_number_of_people b else 0)"
  by (induction bs) (auto simp: find_booking_def held_def split: if_splits)

lemma set_status_nonneg:
  assumes "\<forall>b \<in> set bs. active b \<longrightarrow> 0 \<le> bk_number_of_people b"
    and "find_booking i bs = Some b" and "active b"
  shows "\<forall>b' \<in> set (set_status_one i s bs). active b' \<longrightarrow> 0 \<le> bk_number_of_people b'"
  using assms by (induction bs) (auto simp: find_booking_def active_def split: if_splits)

lemma consistent_counters:
  "consistent d = ((\<forall>pid c m. counters d pid = Some (c, m) \<longrightarrow>
                      0 \<le> c \<and> c \<le> m \<and> held (bookings d) pid \<le> c)
                 \<and> (\<forall>b \<in> set (bookings d). active b \<longrightarrow> 0 \<le> bk_number_of_people b))"
  by (auto simp: consistent_def capacity_ok_def ledger_ok_def counters_def)

lemma consistent_frame:
  "counters d' = counters d \<Longrightarrow> bookings d' = bookings d \<Longrightarrow> consistent d \<Longrightarrow> consistent d'"
  by (simp add: consistent_counters)

lemma counters_inc:
  "counters (inc_current_participants d pid k) =
     (case counters d pid of
        None \<Rightarrow> counters d
      | Some (c, m) \<Rightarrow> (counters d)(pid \<mapsto> (c + k, m)))"
  by (auto simp: counters_def inc_current_participants_def fun_eq_iff split: option.splits)

lemma counters_bookings_upd [simp]: "counters (d\<lparr>bookings := bs\<rparr>) = counters d"
  by (simp add: counters_def fun_eq_iff)

lemma create_booking_consistent:
  assumes "consistent d" and "0 \<le> number_of_people booking"
  shows "consistent (snd (create_booking ops e d booking tourist_id))"
proof (cases "fst (create_booking ops e d booking tourist_id)")
  case (Inl err)
  then show ?thesis using assms(1) by (simp add: create_booking_failure)
next
  case (Inr r)
  from create_booking_success[OF Inr] obtain t pid p where
    pk: "tour_packages d pid = Some p"
    and cap: "number_of_people booking \<le> max_participants p - current_participants p"
    and res: "snd (create_booking ops e d booking tourist_id) =
                inc_current_participants
                  (d\<lparr>bookings := bookings d @
                       [booking_data e booking
                          (t, pid, fmul ops (price p) (number_of_people booking))]\<rparr>)
                  pid (number_of_people booking)"
    by (metis snd_conv)
  let ?doc = "booking_data e booking (t, pid, fmul ops (price p) (number_of_people booking))"
  have doc: "holds_slots q ?doc \<longleftrightarrow> q = pid" "bk_number_of_people ?doc = number_of_people booking"
    for q
    by (auto simp: booking_data_def holds_slots_def active_def)
  have cnt: "counters d pid = Some (current_participants p, max_participants p)"
    using pk by (simp add: counters_def)
  show ?thesis
    using assms cap cnt unfolding res
    by (auto simp: consistent_counters counters_inc held_append doc split: if_splits)
qed

lemma update_booking_status_consistent:
  assumes "consistent d"
  shows "consistent (snd (update_booking_status d booking_id new))"
proof (cases "ObjectId booking_id")
  case None
  then show ?thesis using assms by (simp add: update_booking_status_def)
next
  case (Some i)
  show ?thesis
  proof (cases "find_booking i (bookings d)")
    case None
    then show ?thesis using assms Some by (simp add: update_booking_status_def)
  next
    case fb: (Some b)
    show ?thesis
    proof (cases "new \<in> set (valid_transitions (bk_status b))")
      case False
      then show ?thesis
        using update_booking_status_refused[OF Some fb False] assms by simp
    next
      case True
      have act: "active b" by (rule valid_transitions_active[OF True])
      from assms have nn: "\<forall>b \<in> set (bookings d). active b \<longrightarrow> 0 \<le> bk_number_of_people b"
        by (simp add: consistent_counters)
      have nb: "0 \<le> bk_number_of_people b"
        using nn find_booking_mem[OF fb] act by blast
      let ?bs = "set_status_one i new (bookings d)"
      let ?d1 = "d\<lparr>bookings := ?bs\<rparr>"
      have nn': "\<forall>b' \<in> set ?bs. active b' \<longrightarrow> 0 \<le> bk_number_of_people b'"
        by (rule set_status_nonneg[OF nn fb act])
      have hs: "holds_slots q (b\<lparr>bk_status := new\<rparr>) \<longleftrightarrow>
                  (new \<noteq> CANCELLED \<and> new \<noteq> COMPLETED \<and> package_ref (bk_tour_package_id b) = Some q)"
        for q
        using valid_transitions_target[OF True] by (cases new) (auto simp: holds_slots_def active_def)
      have hb: "holds_slots q b \<longleftrightarrow> package_ref (bk_tour_package_id b) = Some q" for q
        using act by (simp add: holds_slots_def)
      have held': "held ?bs q =
                    held (bookings d) q -
                      (if package_ref (bk_tour_package_id b) = Some q
                          \<and> (new = CANCELLED \<or> new = COMPLETED)
                       then bk_number_of_people b else 0)" for q
        by (simp add: held_set_status[OF fb] hs hb)
      have le: "held ?bs q \<le> held (bookings d) q" for q
        using nb by (simp add: held')
      have cc: "0 \<le> c \<and> c \<le> m \<and> held (bookings d) q \<le> c" if "counters d q = Some (c, m)" for q c m
        using assms that by (simp add: consistent_counters)
      have c1: "consistent ?d1"
        unfolding consistent_counters
      proof (rule conjI, intro allI impI)
        fix q c m
        assume "counters ?d1 q = Some (c, m)"
        then have "counters d q = Some (c, m)" by simp
        from cc[OF this] le[of q] show "0 \<le> c \<and> c \<le> m \<and> held (bookings ?d1) q \<le> c"
          by simp
      next
        show "\<forall>b \<in> set (bookings ?d1). active b \<longrightarrow> 0 \<le> bk_number_of_people b"
          using nn' by simp
      qed
      show ?thesis
      proof (cases "new = CANCELLED")
        case False
        then show ?thesis
          using update_booking_status_allowed[OF Some fb True] c1 by (simp add: Let_def)
      next
        case canc: True
        show ?thesis
        proof (cases "package_ref (bk_tour_package_id b)")
          case None
          then show ?thesis
            using update_booking_status_allowed[OF Some fb True] c1 canc by (simp add: Let_def)
        next
          case (Some pid)
          have res: "snd (update_booking_status d booking_id new) =
                       inc_current_participants ?d1 pid (- bk_number_of_people b)"
            using update_booking_status_allowed[OF \<open>ObjectId booking_id = Some i\<close> fb True] canc Some
            by (simp add: Let_def)
          have h0: "0 \<le> held ?bs pid" by (rule held_nonneg[OF nn'])
          show ?thesis
            unfolding res consistent_counters
          proof (rule conjI, intro allI impI)
            fix q c m
            assume a: "counters (inc_current_participants ?d1 pid (- bk_number_of_people b)) q
                         = Some (c, m)"
            show "0 \<le> c \<and> c \<le> m
                  \<and> held (bookings (inc_current_participants ?d1 pid (- bk_number_of_people b))) q \<le> c"
            proof (cases "q = pid")
              case False
              with a have "counters d q = Some (c, m)"
                by (auto simp: counters_inc split: option.splits prod.splits)
              from cc[OF this] le[of q] show ?thesis by simp
            next
              case True
              with a obtain c0 where c0: "counters d pid = Some (c0, m)"
                and c: "c = c0 - bk_number_of_people b"
                by (auto simp: counters_inc split: option.splits prod.splits)
              have hc: "held ?bs pid = held (bookings d) pid - bk_number_of_people b"
                using held'[of pid] canc Some by simp
              from cc[OF c0] h0 nb hc show ?thesis
                unfolding True c by simp
            qed
          next
            show "\<forall>b' \<in> set (bookings (inc_current_participants ?d1 pid (- bk_number_of_people b))).
                    active b' \<longrightarrow> 0 \<le> bk_number_of_people b'"
              using nn' by simp
          qed
        qed
      qed
    qed
  qed
qed

lemma update_tour_package_consistent:
  assumes "consistent d"
    and "upd_max_participants u = None" and "upd_current_participants u = None"
  shows "consistent (snd (update_tour_package d package_id u))"
proof -
  have "counters (snd (update_tour_package d package_id u)) = counters d"
    using assms(2,3)
    by (auto simp: update_tour_package_def counters_def apply_set_def Let_def fun_eq_iff
             split: option.splits)
  moreover have "bookings (snd (update_tour_package d package_id u)) = bookings d"
    by (simp add: update_tour_package_def Let_def split: option.splits)
  ultimately show ?thesis using assms(1) by (rule consistent_frame)
qed

lemma counters_set_package_rating [simp]:
  "counters (set_package_rating d pid a c) = counters d"
  by (auto simp: counters_def set_package_rating_def fun_eq_iff split: option.splits)

lemma update_package_rating_frame:
  "counters (update_package_rating ops d package_id) = counters d"
  "bookings (update_package_rating ops d package_id) = bookings d"
  by (simp_all add: update_package_rating_def Let_def split: option.splits)

lemma create_rating_frame:
  "counters (snd (create_rating ops e d rating)) = counters d"
  "bookings (snd (create_rating ops e d rating)) = bookings d"
  by (auto simp: create_rating_def Let_def insert_one_rating_def update_package_rating_frame
                 counters_def
           split: option.splits sum.splits if_splits)

lemma step_consistent:
  "consistent d \<Longrightarrow> permitted x \<Longrightarrow> consistent (step ops d x)"
  by (cases x)
     (simp_all add: create_booking_consistent update_booking_status_consistent
        update_tour_package_consistent consistent_frame[OF create_rating_frame])

lemma run_consistent:
  "consistent d \<Longrightarrow> list_all permitted xs \<Longrightarrow> consistent (run ops d xs)"
  by (induction xs arbitrary: d) (simp_all add: step_consistent)

text \<open>
  Claim C1, as amended. From a database in which every package satisfies
  \<open>0 \<le> current_participants \<le> max_participants\<close> and its counter covers the slots of its
  pending and confirmed bookings, every sequence of booking creations with a non-negative
  party size, booking status transitions, rating creations and package updates that leave
  \<^verbatim>\<open>max_participants\<close> and \<^verbatim>\<open>current_participants\<close> unset keeps
  \<open>0 \<le> current_participants \<le> max_participants\<close> for every package.
\<close>


theorem capacity_invariant_preserved:
  assumes "capacity_ok d" and "ledger_ok d" and "list_all permitted xs"
  shows "capacity_ok (run ops d xs)"
  using run_consistent[of d xs ops] assms by (simp add: consistent_def)

theorem capacity_invariant_preserved_witness:
  "capacity_ok (demo_db 10 0 [])
   \<and> ledger_ok (demo_db 10 0 [])
   \<and> list_all permitted
        [CreateBooking (demo_env demo_booking_id) (demo_request 4) demo_tourist_id,
         UpdateBookingStatus demo_booking_id CONFIRMED,
         UpdateBookingStatus demo_booking_id CANCELLED]
   \<and> capacity_ok (run exact_ops (demo_db 10 0 [])
        [CreateBooking (demo_env demo_booking_id) (demo_request 4) demo_tourist_id,
         UpdateBookingStatus demo_booking_id CONFIRMED,
         UpdateBookingStatus demo_booking_id CANCELLED])"
proof -
  have c: "capacity_ok (demo_db 10 0 [])"
    by (simp add: capacity_ok_def)
  have l: "ledger_ok (demo_db 10 0 [])"
    by (simp add: ledger_ok_def held_def)
  have p: "list_all permitted
        [CreateBooking (demo_env demo_booking_id) (demo_request 4) demo_tourist_id,
         UpdateBookingStatus demo_booking_id CONFIRMED,
         UpdateBookingStatus demo_booking_id CANCELLED]"
    by (simp add: demo_request_def)
  show ?thesis
    using c l p capacity_invariant_preserved[OF c l p, of exact_ops] by simp
qed

text \<open>
  The invariant as the claim states it, over every sequence of operations, fails: after a
  booking for three on a package of capacity five, a package update that sets
  \<^verbatim>\<open>max_participants\<close> to 2 is stored as it is, and the counter 3 exceeds the maximum 2.
\<close>

lemma demo_shrink_capacity:
  "cap \<noteq> 2 \<Longrightarrow> update_tour_package (demo_db cap cur bs) demo_package_id shrink_capacity =
     (Inr (Some (demo_package 2 cur)), demo_db 2 cur bs)"
  by (simp add: update_tour_package_def update_is_empty_def shrink_capacity_def update_none_def
        demo_ids apply_set_def Let_def)
     (simp add: demo_db_def demo_package_def)

theorem capacity_invariant_counterexample:
  "capacity_ok (demo_db 5 0 [])
   \<and> \<not> capacity_ok (run exact_ops (demo_db 5 0 [])
          [CreateBooking (demo_env demo_booking_id) (demo_request 3) demo_tourist_id,
           UpdateTourPackage demo_package_id shrink_capacity])"
  by (simp add: demo_create_booking demo_shrink_capacity capacity_ok_def)

section \<open>Two requests against the same package\<close>

text \<open>
  Claim C2, as amended. When two booking requests for the same package are served one
  after the other and their combined party size exceeds the free slots, at most one is
  accepted: once the first has succeeded, the second is refused with status 400 and the
  detail \<^verbatim>\<open>Only k slots available\<close>, \<open>k\<close> being the slots left after the first, and it
  changes nothing.
\<close>


theorem sequential_requests_never_oversell:
  assumes "fst (create_booking ops e1 d r1 t1) = Inr b1"
    and "ObjectId (tour_package_id r1) = Some pid"
    and "tour_packages d pid = Some p"
    and "ObjectId (tour_package_id r2) = Some pid"
    and "ObjectId t2 \<noteq> None"
    and "max_participants p - current_participants p < number_of_people r1 + number_of_people r2"
  shows "create_booking ops e2 (snd (create_booking ops e1 d r1 t1)) r2 t2 =
           (Inl (HTTPException 400
                  (''Only '' @ str_int (max_participants p - current_participants p
                                         - number_of_people r1) @ '' slots available'')),
            snd (create_booking ops e1 d r1 t1))"
proof -
  from create_booking_success[OF assms(1)] assms(2,3) obtain t where
    act: "status p = ACTIVE"
    and res: "snd (create_booking ops e1 d r1 t1) =
                inc_current_participants
                  (d\<lparr>bookings := bookings d @
                       [booking_data e1 r1 (t, pid, fmul ops (price p) (number_of_people r1))]\<rparr>)
                  pid (number_of_people r1)"
    by auto
  have pk: "tour_packages (snd (create_booking ops e1 d r1 t1)) pid =
              Some (p\<lparr>current_participants := current_participants p + number_of_people r1\<rparr>)"
    unfolding res using assms(3) by (simp add: tour_packages_inc)
  from assms(5) obtain t' where t2: "ObjectId t2 = Some t'" by auto
  have "create_booking_check ops (snd (create_booking ops e1 d r1 t1)) r2 t2 =
          Inl (HTTPException 400
                  (''Only '' @ str_int (max_participants p - current_participants p
                                         - number_of_people r1) @ '' slots available''))"
    using assms(6) act
    by (simp add: create_booking_check_def t2 assms(4) pk Let_def algebra_simps)
  then show ?thesis by (simp add: create_booking_def)
qed

theorem sequential_requests_never_oversell_witness:
  "create_booking exact_ops (demo_env other_booking_id)
     (snd (create_booking exact_ops (demo_env demo_booking_id) (demo_db 5 0 []) (demo_request 3)
             demo_tourist_id))
     (demo_request 3) demo_tourist_id =
   (Inl (HTTPException 400 ''Only 2 slots available''),
    demo_db 5 3 [demo_booking demo_booking_id 3 PENDING])"
proof -
  have a: "fst (create_booking exact_ops (demo_env demo_booking_id) (demo_db 5 0 [])
                  (demo_request 3) demo_tourist_id) = Inr (Some (demo_booking demo_booking_id 3 PENDING))"
    by (simp add: demo_create_booking)
  have b: "ObjectId (tour_package_id (demo_request 3)) = Some (OID demo_package_id)"
    by (simp add: demo_request_fields demo_ids)
  have c: "tour_packages (demo_db 5 0 []) (OID demo_package_id) = Some (demo_package 5 0)"
    by simp
  have d: "ObjectId demo_tourist_id \<noteq> None"
    by (simp add: demo_ids)
  have e: "max_participants (demo_package 5 0) - current_participants (demo_package 5 0)
             < number_of_people (demo_request 3) + number_of_people (demo_request 3)"
    by (simp add: demo_request_fields)
  show ?thesis
    using sequential_requests_never_oversell[OF a b c b d e, of "demo_env other_booking_id"]
    by (simp add: demo_create_booking demo_request_fields str_int_def)
qed

text \<open>
  Interleaved, both requests are accepted. \<^verbatim>\<open>create_booking\<close> reads the package once,
  before its first write, and awaits between the two. When both requests for three of the
  five free slots have passed the check on the same snapshot, each insert and increment
  goes through, and the counter ends at 6 above the maximum 5.
\<close>


theorem interleaved_requests_counterexample:
  "create_booking_check exact_ops (demo_db 5 0 []) (demo_request 3) demo_tourist_id
     = Inr (demo_ctx 3)
   \<and> create_booking_store (demo_env demo_booking_id) (demo_db 5 0 []) (demo_request 3) (demo_ctx 3)
     = (Inr (Some (demo_booking demo_booking_id 3 PENDING)),
        demo_db 5 3 [demo_booking demo_booking_id 3 PENDING])
   \<and> create_booking_store (demo_env other_booking_id)
        (demo_db 5 3 [demo_booking demo_booking_id 3 PENDING]) (demo_request 3) (demo_ctx 3)
     = (Inr (Some (demo_booking other_booking_id 3 PENDING)),
        demo_db 5 6 [demo_booking demo_booking_id 3 PENDING, demo_booking other_booking_id 3 PENDING])
   \<and> tour_packages (demo_db 5 6 [demo_booking demo_booking_id 3 PENDING,
                                  demo_booking other_booking_id 3 PENDING]) (OID demo_package_id)
     = Some (demo_package 5 6)
   \<and> max_participants (demo_package 5 6) < current_participants (demo_package 5 6)"
  by (simp add: demo_check demo_store demo_booking_id_def other_booking_id_def)

section \<open>The status state machine\<close>



text \<open>
  Claim C4. Cancelling a pending or confirmed booking lowers the counter of its package by
  exactly the booking's \<^verbatim>\<open>number_of_people\<close>; a request for any other status leaves
  every package as it was; a second cancellation is refused (cancelled is terminal) and
  changes nothing, so the slots are released once.
\<close>

theorem cancellation_releases_slots:
  assumes "ObjectId booking_id = Some i"
    and "find_booking i (bookings d) = Some b"
    and "bk_status b \<in> {PENDING, CONFIRMED}"
    and "package_ref (bk_tour_package_id b) = Some pid"
    and "tour_packages d pid = Some p"
  shows "fst (update_booking_status d booking_id CANCELLED) = Inr (Some (b\<lparr>bk_status := CANCELLED\<rparr>))
       \<and> tour_packages (snd (update_booking_status d booking_id CANCELLED)) =
           (tour_packages d)(pid \<mapsto>
              p\<lparr>current_participants := current_participants p - bk_number_of_people b\<rparr>)
       \<and> (\<forall>new. new \<noteq> CANCELLED \<longrightarrow>
              tour_packages (snd (update_booking_status d booking_id new)) = tour_packages d)
       \<and> update_booking_status (snd (update_booking_status d booking_id CANCELLED))
             booking_id CANCELLED =
           (Inl (HTTPException 400 ''Cannot transition from cancelled to cancelled''),
            snd (update_booking_status d booking_id CANCELLED))"
proof -
  let ?d1 = "d\<lparr>bookings := set_status_one i CANCELLED (bookings d)\<rparr>"
  let ?d2 = "inc_current_participants ?d1 pid (- bk_number_of_people b)"
  from assms(3) have ok: "CANCELLED \<in> set (valid_transitions (bk_status b))"
    by auto
  have first: "update_booking_status d booking_id CANCELLED =
                 (Inr (Some (b\<lparr>bk_status := CANCELLED\<rparr>)), ?d2)"
    using update_booking_status_allowed[OF assms(1,2) ok] assms(4) by (simp add: Let_def)
  have found: "find_booking i (bookings ?d2) = Some (b\<lparr>bk_status := CANCELLED\<rparr>)"
    using find_booking_set_status[OF assms(2)] by simp
  have second: "update_booking_status ?d2 booking_id CANCELLED =
                  (Inl (HTTPException 400 ''Cannot transition from cancelled to cancelled''), ?d2)"
    using update_booking_status_refused[OF assms(1) found, of CANCELLED] by simp
  have pk: "tour_packages ?d2 =
              (tour_packages d)(pid \<mapsto>
                 p\<lparr>current_participants := current_participants p - bk_number_of_people b\<rparr>)"
    using assms(5) by (simp add: tour_packages_inc)
  show ?thesis
    using first second pk update_booking_status_packages_frame by simp
qed

theorem cancellation_releases_slots_witness:
  "fst (update_booking_status (demo_db 10 4 [demo_booking demo_booking_id 4 CONFIRMED])
          demo_booking_id CANCELLED) = Inr (Some (demo_booking demo_booking_id 4 CANCELLED))
   \<and> tour_packages (snd (update_booking_status (demo_db 10 4 [demo_booking demo_booking_id 4 CONFIRMED])
          demo_booking_id CANCELLED)) = [OID demo_package_id \<mapsto> demo_package 10 0]"
proof -
  have f: "find_booking (OID demo_booking_id)
             (bookings (demo_db 10 4 [demo_booking demo_booking_id 4 CONFIRMED]))
             = Some (demo_booking demo_booking_id 4 CONFIRMED)"
    by (simp add: demo_find_booking)
  have s: "bk_status (demo_booking demo_booking_id 4 CONFIRMED) \<in> {PENDING, CONFIRMED}"
    by simp
  have r: "package_ref (bk_tour_package_id (demo_booking demo_booking_id 4 CONFIRMED))
             = Some (OID demo_package_id)"
    by simp
  have p: "tour_packages (demo_db 10 4 [demo_booking demo_booking_id 4 CONFIRMED]) (OID demo_package_id)
             = Some (demo_package 10 4)"
    by simp
  show ?thesis
    using cancellation_releases_slots[OF demo_ids(3) f s r p] by simp
qed

text \<open>
  Claim C5, as amended. The release on cancellation subtracts the booking's
  \<^verbatim>\<open>number_of_people\<close> from the counter and applies no floor: the new counter is the old
  one minus the party size, and it is negative exactly when the party size exceeds the
  old counter.
\<close>

theorem cancellation_has_no_floor:
  assumes "ObjectId booking_id = Some i"
    and "find_booking i (bookings d) = Some b"
    and "CANCELLED \<in> set (valid_transitions (bk_status b))"
    and "package_ref (bk_tour_package_id b) = Some pid"
    and "tour_packages d pid = Some p"
  shows "map_option current_participants
           (tour_packages (snd (update_booking_status d booking_id CANCELLED)) pid)
         = Some (current_participants p - bk_number_of_people b)
       \<and> map_option (\<lambda>p'. current_participants p' < 0)
           (tour_packages (snd (update_booking_status d booking_id CANCELLED)) pid)
         = Some (current_participants p < bk_number_of_people b)"
  using update_booking_status_allowed[OF assms(1,2,3)] assms(4,5)
  by (simp add: Let_def tour_packages_inc)

theorem cancellation_has_no_floor_witness:
  "map_option current_participants
     (tour_packages (snd (update_booking_status (demo_db 10 4 [demo_booking demo_booking_id 4 PENDING])
                 demo_booking_id CANCELLED)) (OID demo_package_id)) = Some 0"
proof -
  have f: "find_booking (OID demo_booking_id)
             (bookings (demo_db 10 4 [demo_booking demo_booking_id 4 PENDING]))
             = Some (demo_booking demo_booking_id 4 PENDING)"
    by (simp add: demo_find_booking)
  have s: "CANCELLED \<in> set (valid_transitions (bk_status (demo_booking demo_booking_id 4 PENDING)))"
    by simp
  have r: "package_ref (bk_tour_package_id (demo_booking demo_booking_id 4 PENDING))
             = Some (OID demo_package_id)"
    by simp
  have p: "tour_packages (demo_db 10 4 [demo_booking demo_booking_id 4 PENDING]) (OID demo_package_id)
             = Some (demo_package 10 4)"
    by simp
  show ?thesis
    using cancellation_has_no_floor[OF demo_ids(3) f s r p] by simp
qed

text \<open>
  The counter does go below zero: a booking for three is created, the package update sets
  \<^verbatim>\<open>current_participants\<close> to 0, and the cancellation then leaves the counter at -3.
\<close>

theorem release_floor_counterexample:
  "tour_packages
     (run exact_ops (demo_db 5 0 [])
        [CreateBooking (demo_env demo_booking_id) (demo_request 3) demo_tourist_id,
         UpdateTourPackage demo_package_id reset_counter,
         UpdateBookingStatus demo_booking_id CANCELLED]) (OID demo_package_id)
     = Some (demo_package 5 (- 3))
   \<and> current_participants (demo_package 5 (- 3)) < 0"
  by (simp add: demo_create_booking demo_reset_counter demo_cancel)

section \<open>The booking reference\<close>

text \<open>
  Claim C6, as amended. The reference of every created booking has exactly 8 characters,
  each an upper-case letter or a digit. \<^verbatim>\<open>create_booking\<close> does not look the reference
  up before storing it. Where the collection carries the unique index on
  \<^verbatim>\<open>booking_reference\<close>, a created booking's reference is none of the stored ones and
  distinct stored references stay distinct, because the insert itself fails on a
  duplicate.
\<close>


theorem booking_reference_format:
  assumes "fst (create_booking ops e d booking tourist_id) = Inr (Some b)"
  shows "length (bk_booking_reference b) = 8
       \<and> set (bk_booking_reference b) \<subseteq> set ''ABCDEFGHIJKLMNOPQRSTUVWXYZ0123456789''
       \<and> (booking_reference_unique d \<longrightarrow>
             bk_booking_reference b \<notin> bk_booking_reference ` set (bookings d))
       \<and> (booking_reference_unique d \<and> distinct (map bk_booking_reference (bookings d)) \<longrightarrow>
             distinct (map bk_booking_reference
                         (bookings (snd (create_booking ops e d booking tourist_id)))))"
proof -
  from create_booking_success[OF assms] obtain t pid p where
    pk: "tour_packages d pid = Some p"
    and uniq: "booking_reference_unique d \<longrightarrow>
             choices (ascii_uppercase @ digits) 8 (rnd e)
               \<notin> bk_booking_reference ` set (bookings d)"
    and res: "create_booking ops e d booking tourist_id =
               (Inr (Some (booking_data e booking
                             (t, pid, fmul ops (price p) (number_of_people booking)))),
                inc_current_participants
                  (d\<lparr>bookings := bookings d @
                       [booking_data e booking
                          (t, pid, fmul ops (price p) (number_of_people booking))]\<rparr>)
                  pid (number_of_people booking))"
    by (elim exE conjE) (rule that)
  from assms res have b: "b = booking_data e booking (t, pid, fmul ops (price p) (number_of_people booking))"
    by simp
  have ref: "bk_booking_reference b = choices (ascii_uppercase @ digits) 8 (rnd e)"
    by (simp add: b booking_reference_of_data)
  have alphabet: "ascii_uppercase @ digits = ''ABCDEFGHIJKLMNOPQRSTUVWXYZ0123456789''"
    by (simp add: ascii_uppercase_def digits_def)
  have sub: "set (bk_booking_reference b) \<subseteq> set ''ABCDEFGHIJKLMNOPQRSTUVWXYZ0123456789''"
    unfolding ref alphabet by (rule choices_subset) simp
  have len: "length (bk_booking_reference b) = 8"
    by (simp add: ref choices_length)
  have bs: "bookings (snd (create_booking ops e d booking tourist_id)) = bookings d @ [b]"
    by (simp add: res b)
  show ?thesis
    using len sub uniq by (auto simp: bs ref)
qed

theorem booking_reference_format_witness:
  "length (bk_booking_reference (demo_booking demo_booking_id 4 PENDING)) = 8
   \<and> set (bk_booking_reference (demo_booking demo_booking_id 4 PENDING))
        \<subseteq> set ''ABCDEFGHIJKLMNOPQRSTUVWXYZ0123456789''
   \<and> booking_reference_unique indexed_db
   \<and> distinct (map bk_booking_reference (bookings indexed_db))
   \<and> distinct (map bk_booking_reference
        (bookings (snd (create_booking exact_ops (demo_env demo_booking_id) indexed_db
                          (demo_request 4) demo_tourist_id))))"
proof -
  have a: "fst (create_booking exact_ops (demo_env demo_booking_id) indexed_db
                  (demo_request 4) demo_tourist_id)
             = Inr (Some (demo_booking demo_booking_id 4 PENDING))"
    by (simp add: create_booking_def create_booking_check_def create_booking_store_def
          insert_one_booking_def booking_data_def demo_reference demo_ids demo_request_fields
          indexed_db_def exact_ops_def Let_def find_booking_def demo_booking_id_def
          other_booking_id_def)
       (simp add: demo_booking_def demo_env_def demo_request_def demo_package_def demo_booking_id_def)
  have u: "booking_reference_unique indexed_db"
    by (simp add: indexed_db_def)
  have dd: "distinct (map bk_booking_reference (bookings indexed_db))"
    by (simp add: indexed_db_def)
  show ?thesis
    using booking_reference_format[OF a] u dd by simp
qed

text \<open>
  Without the index a reference is reused: two creations whose random draws coincide both
  succeed, and two different bookings carry the same reference.
\<close>


theorem booking_reference_reuse_counterexample:
  "create_booking exact_ops (demo_env demo_booking_id) (demo_db 10 0 []) (demo_request 4)
     demo_tourist_id
     = (Inr (Some (demo_booking demo_booking_id 4 PENDING)),
        demo_db 10 4 [demo_booking demo_booking_id 4 PENDING])
   \<and> create_booking exact_ops (demo_env other_booking_id)
       (demo_db 10 4 [demo_booking demo_booking_id 4 PENDING]) (demo_request 2) demo_tourist_id
     = (Inr (Some (demo_booking other_booking_id 2 PENDING)),
        demo_db 10 6 [demo_booking demo_booking_id 4 PENDING,
                      demo_booking other_booking_id 2 PENDING])
   \<and> bk_id (demo_booking demo_booking_id 4 PENDING) \<noteq> bk_id (demo_booking other_booking_id 2 PENDING)
   \<and> bk_booking_reference (demo_booking demo_booking_id 4 PENDING)
       = bk_booking_reference (demo_booking other_booking_id 2 PENDING)"
  by (simp add: demo_create_booking demo_booking_id_def other_booking_id_def)

section \<open>The price of a booking\<close>

lemma price_ledger_find:
  "map_option bk_total_price (find_booking i bs) = map_of (price_ledger bs) i"
  by (induction bs) (auto simp: find_booking_def price_ledger_def)

lemma price_ledger_set_status [simp]:
  "price_ledger (set_status_one i s bs) = price_ledger bs"
  by (induction bs) (auto simp: price_ledger_def)

lemma step_price_ledger:
  "\<exists>ys. price_ledger (bookings (step ops d x)) = price_ledger (bookings d) @ ys"
proof (cases x)
  case (CreateBooking e booking tourist_id)
  with bookings_create_booking[of ops e d booking tourist_id] show ?thesis
    by (auto simp: price_ledger_def)
next
  case (UpdateBookingStatus booking_id new)
  with bookings_update_booking_status[of d booking_id new] show ?thesis
    by auto
next
  case (UpdateTourPackage package_id u)
  then show ?thesis by simp
next
  case (CreateRating e rating)
  then show ?thesis by simp
qed

lemma run_price_ledger:
  "\<exists>ys. price_ledger (bookings (run ops d xs)) = price_ledger (bookings d) @ ys"
proof (induction xs arbitrary: d)
  case Nil
  show ?case by simp
next
  case (Cons x xs)
  from step_price_ledger[of ops d x] obtain ys where
    a: "price_ledger (bookings (step ops d x)) = price_ledger (bookings d) @ ys" ..
  from Cons[of "step ops d x"] obtain zs where
    b: "price_ledger (bookings (run ops (step ops d x) xs))
          = price_ledger (bookings (step ops d x)) @ zs" ..
  show ?case by (simp add: a b)
qed

lemma run_keeps_total_price:
  assumes "map_option bk_total_price (find_booking i (bookings d)) = Some v"
  shows "map_option bk_total_price (find_booking i (bookings (run ops d xs))) = Some v"
proof -
  from run_price_ledger[of ops d xs] obtain ys where
    "price_ledger (bookings (run ops d xs)) = price_ledger (bookings d) @ ys" ..
  with assms show ?thesis
    by (simp add: price_ledger_find)
qed

text \<open>
  Claim C7. The total price stored with a created booking is the product of the package's
  price at that moment and the party size (the float product of the source, \<open>fmul\<close>), and
  it stays so: after any further sequence of booking creations, status transitions,
  package updates (price edits among them) and rating creations, the booking found under
  the same identifier still carries that total price.
\<close>


theorem total_price_frozen:
  assumes "fst (create_booking ops e d booking tourist_id) = Inr (Some b)"
    and "ObjectId (tour_package_id booking) = Some pid"
    and "tour_packages d pid = Some p"
  shows "bk_total_price b = fmul ops (price p) (number_of_people booking)
       \<and> (\<forall>xs. map_option bk_total_price
                  (find_booking (bk_id b)
                     (bookings (run ops (snd (create_booking ops e d booking tourist_id)) xs)))
                = Some (fmul ops (price p) (number_of_people booking)))"
proof -
  from create_booking_success[OF assms(1)] assms(2,3) obtain t where
    fresh: "new_id e \<notin> bk_id ` set (bookings d)"
    and res: "create_booking ops e d booking tourist_id =
               (Inr (Some (booking_data e booking
                             (t, pid, fmul ops (price p) (number_of_people booking)))),
                inc_current_participants
                  (d\<lparr>bookings := bookings d @
                       [booking_data e booking
                          (t, pid, fmul ops (price p) (number_of_people booking))]\<rparr>)
                  pid (number_of_people booking))"
    by auto
  from assms(1) res
  have b: "b = booking_data e booking (t, pid, fmul ops (price p) (number_of_people booking))"
    by simp
  have tp: "bk_total_price b = fmul ops (price p) (number_of_people booking)"
    and bid: "bk_id b = new_id e"
    by (simp_all add: b booking_data_def)
  have "find_booking (bk_id b) (bookings (snd (create_booking ops e d booking tourist_id))) = Some b"
    using find_booking_append_fresh[OF fresh, of b] bid by (simp add: res b)
  then have "map_option bk_total_price
               (find_booking (bk_id b) (bookings (snd (create_booking ops e d booking tourist_id))))
             = Some (fmul ops (price p) (number_of_people booking))"
    by (simp add: tp)
  from run_keeps_total_price[OF this] tp show ?thesis by blast
qed

theorem total_price_frozen_witness:
  "bk_total_price (demo_booking demo_booking_id 4 PENDING) = 400
   \<and> map_option price
       (tour_packages
          (run exact_ops (demo_db 10 4 [demo_booking demo_booking_id 4 PENDING])
             [UpdateTourPackage demo_package_id raise_price]) (OID demo_package_id)) = Some 250
   \<and> map_option bk_total_price
       (find_booking (OID demo_booking_id)
          (bookings (run exact_ops (demo_db 10 4 [demo_booking demo_booking_id 4 PENDING])
             [UpdateTourPackage demo_package_id raise_price,
              UpdateBookingStatus demo_booking_id CONFIRMED]))) = Some 400"
proof -
  have a: "fst (create_booking exact_ops (demo_env demo_booking_id) (demo_db 10 0 [])
                  (demo_request 4) demo_tourist_id) = Inr (Some (demo_booking demo_booking_id 4 PENDING))"
    by (simp add: demo_create_booking)
  have b: "ObjectId (tour_package_id (demo_request 4)) = Some (OID demo_package_id)"
    by (simp add: demo_request_fields demo_ids)
  have c: "tour_packages (demo_db 10 0 []) (OID demo_package_id) = Some (demo_package 10 0)"
    by simp
  have r: "snd (create_booking exact_ops (demo_env demo_booking_id) (demo_db 10 0 [])
                  (demo_request 4) demo_tourist_id) = demo_db 10 4 [demo_booking demo_booking_id 4 PENDING]"
    by (simp add: demo_create_booking)
  have f: "fmul exact_ops (price (demo_package 10 0)) (number_of_people (demo_request 4)) = 400"
    by (simp add: exact_ops_def demo_package_def demo_request_fields)
  have kept: "map_option bk_total_price
       (find_booking (OID demo_booking_id)
          (bookings (run exact_ops (demo_db 10 4 [demo_booking demo_booking_id 4 PENDING])
             [UpdateTourPackage demo_package_id raise_price,
              UpdateBookingStatus demo_booking_id CONFIRMED]))) = Some 400"
    using total_price_frozen[OF a b c, THEN conjunct2, THEN spec,
            of "[UpdateTourPackage demo_package_id raise_price,
                 UpdateBookingStatus demo_booking_id CONFIRMED]"]
    unfolding r f by simp
  show ?thesis
    using kept by (simp add: demo_raise_price)
qed

section \<open>The rating aggregate\<close>

text \<open>
  Claim C8, as amended. After a successful rating insertion the ratings stored under the
  request's \<^verbatim>\<open>tour_package_id\<close> are the earlier ones followed by the new value, and the
  package's \<^verbatim>\<open>average_rating\<close> is the mean of all of them as the store's \<^verbatim>\<open>$avg\<close>
  computes it (\<open>favg\<close>), rounded to one decimal place by \<^verbatim>\<open>round(x, 1)\<close> (\<open>fround1\<close>).
\<close>


theorem average_rating_is_rounded_mean:
  assumes "fst (create_rating ops e d rating) = Inr r"
    and "ObjectId (rc_tour_package_id rating) = Some pid"
    and "tour_packages d pid = Some p"
  shows "ratings_for (rc_tour_package_id rating) (ratings (snd (create_rating ops e d rating)))
           = ratings_for (rc_tour_package_id rating) (ratings d) @ [rc_rating rating]
       \<and> map_option average_rating (tour_packages (snd (create_rating ops e d rating)) pid)
           = Some (fround1 ops (favg ops
               (ratings_for (rc_tour_package_id rating)
                  (ratings (snd (create_rating ops e d rating))))))"
proof -
  from create_rating_success[OF assms(1)] obtain pid' idf booking where
    ok: "ObjectId (rc_tour_package_id rating) = Some pid'"
      "booking_id_filter (rc_booking_id rating) = Some idf"
      "List.find (booking_query pid' (rc_tourist_id rating) idf) (bookings d) = Some booking"
      "List.find (rating_query (rc_tour_package_id rating) (rc_tourist_id rating)) (ratings d) = None"
      "1 \<le> rc_rating rating" "rc_rating rating \<le> 5"
      "new_id e \<notin> rt_id ` set (ratings d)"
    by blast
  define doc where "doc = rating_payload e rating booking"
  have doc: "rt_tour_package_id doc = rc_tour_package_id rating" "rt_rating doc = rc_rating rating"
    by (simp_all add: doc_def rating_payload_def)
  have res: "snd (create_rating ops e d rating) =
                 update_package_rating ops (d\<lparr>ratings := ratings d @ [doc]\<rparr>)
                   (rc_tour_package_id rating)"
    by (simp add: create_rating_accepts[OF ok] doc_def)
  let ?d1 = "d\<lparr>ratings := ratings d @ [doc]\<rparr>"
  have rf: "ratings_for (rc_tour_package_id rating) (ratings d @ [doc])
              = ratings_for (rc_tour_package_id rating) (ratings d) @ [rc_rating rating]"
    by (simp add: ratings_for_def doc)
  have ne: "ratings_for (rc_tour_package_id rating) (ratings ?d1) \<noteq> []"
    by (simp add: rf)
  have pk: "tour_packages ?d1 pid = Some p"
    using assms(3) by simp
  show ?thesis
    unfolding res
    by (simp add: average_after_update_package_rating[OF assms(2) pk ne] rf)
qed

theorem average_rating_is_rounded_mean_witness:
  "ratings_for demo_package_id
     (ratings (snd (create_rating exact_ops (demo_env demo_rating_id) rated_db (demo_rating 2 None))))
     = [1, 2, 2]
   \<and> map_option average_rating
       (tour_packages (snd (create_rating exact_ops (demo_env demo_rating_id) rated_db
                              (demo_rating 2 None))) (OID demo_package_id))
     = Some (17 / 10)"
proof -
  have a: "fst (create_rating exact_ops (demo_env demo_rating_id) rated_db (demo_rating 2 None))
             = Inr (Some (rating_payload (demo_env demo_rating_id) (demo_rating 2 None)
                            (legacy_booking demo_booking_id COMPLETED)))"
    by (simp add: rated_db_accepts)
  have b: "ObjectId (rc_tour_package_id (demo_rating 2 None)) = Some (OID demo_package_id)"
    by (simp add: demo_ids)
  have c: "tour_packages rated_db (OID demo_package_id) = Some (demo_package 10 2)"
    by simp
  show ?thesis
    using average_rating_is_rounded_mean[OF a b c] by (auto simp: exact_mean)
qed

text \<open>
  The stored average is not the mean, and \<^verbatim>\<open>total_ratings\<close> is not the count: with the
  ratings 1, 2 and 2 the mean is 5/3, the package stores 1.7, and \<^verbatim>\<open>total_ratings\<close> is
  still 0 while three ratings are stored.
\<close>


theorem average_rating_counterexample:
  "map_option average_rating
     (tour_packages (snd (create_rating exact_ops (demo_env demo_rating_id) rated_db
                            (demo_rating 2 None))) (OID demo_package_id))
     = Some (17 / 10)
   \<and> (of_int (sum_list [1, 2, 2]) / of_int (int (length [1, 2, 2 :: int])) :: rat) = 5 / 3
   \<and> map_option total_ratings
       (tour_packages (snd (create_rating exact_ops (demo_env demo_rating_id) rated_db
                              (demo_rating 2 None))) (OID demo_package_id))
     = Some 0
   \<and> ratings_for demo_package_id
       (ratings (snd (create_rating exact_ops (demo_env demo_rating_id) rated_db (demo_rating 2 None))))
     = [1, 2, 2]"
proof -
  let ?doc = "rating_payload (demo_env demo_rating_id) (demo_rating 2 None)
                (legacy_booking demo_booking_id COMPLETED)"
  let ?d1 = "rated_db\<lparr>ratings := ratings rated_db @ [?doc]\<rparr>"
  have rf: "ratings_for demo_package_id (ratings rated_db @ [?doc]) = [1, 2, 2]"
    using rated_db_fields(3) by (simp add: ratings_for_def rating_payload_def)
  have ne: "ratings_for demo_package_id (ratings ?d1) \<noteq> []"
    by (simp add: rf)
  have pk: "tour_packages ?d1 (OID demo_package_id) = Some (demo_package 10 2)"
    by simp
  show ?thesis
    by (simp add: rated_db_accepts average_after_update_package_rating[OF demo_ids(1) pk ne]
          rf exact_mean)
       (simp add: demo_package_def)
qed

section \<open>The preconditions of a rating\<close>




section \<open>Tourists stored as ObjectId\<close>

lemma tourist_of_booking_data:
  "bk_tourist_id (booking_data e booking (t, pid, amount)) = OidV t"
  by (simp add: booking_data_def)

lemma tourist_is_object_id_data [simp]: "tourist_is_object_id (booking_data e booking ctx)"
  by (cases ctx) (simp add: booking_data_def tourist_is_object_id_def)

lemma tourist_is_object_id_status [simp]:
  "tourist_is_object_id (b\<lparr>bk_status := s\<rparr>) = tourist_is_object_id b"
  by (simp add: tourist_is_object_id_def)

lemma set_status_one_tourists:
  "list_all tourist_is_object_id bs \<Longrightarrow> list_all tourist_is_object_id (set_status_one i s bs)"
  by (induction bs) auto

lemma step_tourists:
  assumes "list_all tourist_is_object_id (bookings d)"
  shows "list_all tourist_is_object_id (bookings (step ops d x))"
proof (cases x)
  case (CreateBooking e booking tourist_id)
  with bookings_create_booking[of ops e d booking tourist_id] assms show ?thesis
    by auto
next
  case (UpdateBookingStatus booking_id new)
  with bookings_update_booking_status[of d booking_id new] assms show ?thesis
    by (auto simp: set_status_one_tourists)
next
  case (UpdateTourPackage package_id u)
  with assms show ?thesis by simp
next
  case (CreateRating e rating)
  with assms show ?thesis by simp
qed

lemma run_tourists:
  "list_all tourist_is_object_id (bookings d) \<Longrightarrow>
   list_all tourist_is_object_id (bookings (run ops d xs))"
  by (induction xs arbitrary: d) (simp_all add: step_tourists)

lemma object_id_tourist_no_match:
  "tourist_is_object_id b \<Longrightarrow> \<not> booking_query pid tourist idf b"
  by (cases "bk_tourist_id b") (simp_all add: booking_query_def tourist_is_object_id_def)

lemma object_id_tourists_no_match:
  "list_all tourist_is_object_id bs \<Longrightarrow> List.find (booking_query pid tourist idf) bs = None"
  by (simp add: find_None_iff list_all_iff object_id_tourist_no_match)

text \<open>
  Claim C10. \<^verbatim>\<open>create_booking\<close> stores the tourist of a booking as an ObjectId, and the
  eligibility query of \<^verbatim>\<open>create_rating\<close> compares the stored field with the request's
  string. So the booking, whatever its status becomes, never matches a request that gives
  the tourist as the string form of that ObjectId; and in a database whose other bookings
  were written the same way, after any later operations (completing the booking among
  them), such a rating request is rejected as not eligible and changes nothing.
\<close>


theorem object_id_tourist_never_eligible:
  assumes "list_all tourist_is_object_id (bookings d)"
    and "fst (create_booking ops e d booking tourist_id) = Inr (Some b)"
    and "ObjectId tourist_id = Some t"
    and "booking_id_filter bid = Some idf"
  shows "bk_tourist_id b = OidV t
       \<and> (\<forall>pid s. \<not> booking_query pid (str_oid t) idf (b\<lparr>bk_status := s\<rparr>))
       \<and> create_rating ops e'
            (run ops (snd (create_booking ops e d booking tourist_id)) xs)
            \<lparr> rc_tour_package_id = tour_package_id booking, rc_tourist_id = str_oid t,
              rc_rating = v, rc_review = review, rc_booking_id = bid \<rparr>
           = (Inl (HTTPException 400 ''You can only rate packages you've completed''),
              run ops (snd (create_booking ops e d booking tourist_id)) xs)"
proof -
  from create_booking_success[OF assms(2)] assms(3) obtain pid p where
    pid: "ObjectId (tour_package_id booking) = Some pid"
    and pk: "tour_packages d pid = Some p"
    and res: "create_booking ops e d booking tourist_id =
               (Inr (Some (booking_data e booking
                             (t, pid, fmul ops (price p) (number_of_people booking)))),
                inc_current_participants
                  (d\<lparr>bookings := bookings d @
                       [booking_data e booking
                          (t, pid, fmul ops (price p) (number_of_people booking))]\<rparr>)
                  pid (number_of_people booking))"
    by auto
  from assms(2) res
  have b: "b = booking_data e booking (t, pid, fmul ops (price p) (number_of_people booking))"
    by simp
  have tb: "bk_tourist_id b = OidV t"
    by (simp add: b tourist_of_booking_data)
  have nm: "\<not> booking_query pid' (str_oid t) idf (b\<lparr>bk_status := s\<rparr>)" for pid' s
    by (rule object_id_tourist_no_match) (simp add: tb tourist_is_object_id_def)
  have "list_all tourist_is_object_id (bookings (snd (create_booking ops e d booking tourist_id)))"
    using assms(1) by (simp add: res)
  then have "list_all tourist_is_object_id
               (bookings (run ops (snd (create_booking ops e d booking tourist_id)) xs))"
    by (rule run_tourists)
  then have none: "List.find (booking_query pid (str_oid t) idf)
                     (bookings (run ops (snd (create_booking ops e d booking tourist_id)) xs)) = None"
    by (rule object_id_tourists_no_match)
  have "create_rating ops e'
            (run ops (snd (create_booking ops e d booking tourist_id)) xs)
            \<lparr> rc_tour_package_id = tour_package_id booking, rc_tourist_id = str_oid t,
              rc_rating = v, rc_review = review, rc_booking_id = bid \<rparr>
           = (Inl (HTTPException 400 ''You can only rate packages you've completed''),
              run ops (snd (create_booking ops e d booking tourist_id)) xs)"
    by (rule create_rating_not_eligible[where pid = pid and idf = idf])
       (simp_all add: pid assms(4) none)
  with tb nm show ?thesis by blast
qed

theorem object_id_tourist_never_eligible_witness:
  "run exact_ops (demo_db 10 4 [demo_booking demo_booking_id 4 PENDING])
     [UpdateBookingStatus demo_booking_id CONFIRMED, UpdateBookingStatus demo_booking_id COMPLETED]
     = demo_db 10 4 [demo_booking demo_booking_id 4 COMPLETED]
   \<and> bk_tourist_id (demo_booking demo_booking_id 4 COMPLETED) = OidV (OID demo_tourist_id)
   \<and> create_rating exact_ops (demo_env demo_rating_id)
        (demo_db 10 4 [demo_booking demo_booking_id 4 COMPLETED]) (demo_rating 5 None)
      = (Inl (HTTPException 400 ''You can only rate packages you've completed''),
         demo_db 10 4 [demo_booking demo_booking_id 4 COMPLETED])"
proof -
  have a: "list_all tourist_is_object_id (bookings (demo_db 10 0 []))"
    by simp
  have b: "fst (create_booking exact_ops (demo_env demo_booking_id) (demo_db 10 0 [])
                  (demo_request 4) demo_tourist_id) = Inr (Some (demo_booking demo_booking_id 4 PENDING))"
    by (simp add: demo_create_booking)
  have c: "booking_id_filter None = Some None"
    by (simp add: booking_id_filter_def)
  have r: "run exact_ops (demo_db 10 4 [demo_booking demo_booking_id 4 PENDING])
     [UpdateBookingStatus demo_booking_id CONFIRMED, UpdateBookingStatus demo_booking_id COMPLETED]
     = demo_db 10 4 [demo_booking demo_booking_id 4 COMPLETED]"
    by (simp add: demo_transition)
  have q: "\<lparr> rc_tour_package_id = tour_package_id (demo_request 4),
             rc_tourist_id = str_oid (OID demo_tourist_id),
             rc_rating = 5, rc_review = None, rc_booking_id = None \<rparr> = demo_rating 5 None"
    by (simp add: demo_rating_def demo_request_fields)
  have s: "snd (create_booking exact_ops (demo_env demo_booking_id) (demo_db 10 0 [])
                  (demo_request 4) demo_tourist_id)
             = demo_db 10 4 [demo_booking demo_booking_id 4 PENDING]"
    by (simp add: demo_create_booking)
  from object_id_tourist_never_eligible[OF a b demo_ids(2) c,
            where xs = "[UpdateBookingStatus demo_booking_id CONFIRMED,
                         UpdateBookingStatus demo_booking_id COMPLETED]"
              and e' = "demo_env demo_rating_id" and v = 5 and review = None]
  have "create_rating exact_ops (demo_env demo_rating_id)
        (demo_db 10 4 [demo_booking demo_booking_id 4 COMPLETED]) (demo_rating 5 None)
      = (Inl (HTTPException 400 ''You can only rate packages you've completed''),
         demo_db 10 4 [demo_booking demo_booking_id 4 COMPLETED])"
    unfolding s r q by blast
  with r show ?thesis by simp
qed

end
